theory Spec2Isabelle
  imports Main "HOL-Library.Sublist" "HOL-Library.Word"
begin

section \<open>Configuration and data model\<close>

text \<open>
  The development flags of \<^verbatim>\<open>config/index.ts\<close> that select between the real
  collaborators and their in-process stand-ins.  Only the two flags read by the
  deployment pipeline are kept.
\<close>

record config =
  MOCK_DB :: bool
  MOCK_CHAIN :: bool

text \<open>\<^verbatim>\<open>types/index.ts\<close>: the status is a closed set of five strings.\<close>

datatype DeploymentStatus = pending | processing | deployed | failed | wallet_missing

text \<open>
  Time stamps (\<^verbatim>\<open>new Date()\<close>, \<^verbatim>\<open>NOW()\<close>, \<^verbatim>\<open>Date.now()\<close>) are
  milliseconds as natural numbers.
\<close>

record User =
  twitter_id :: string
  wallet_address :: string
  private_key_encrypted :: "string option"
  verified_at :: nat

text \<open>
  One row of the \<^verbatim>\<open>deployments\<close> table (\<^verbatim>\<open>schema.sql\<close>).  The object the
  in-memory store builds has no \<^verbatim>\<open>token_name\<close>, \<^verbatim>\<open>token_symbol\<close>,
  \<^verbatim>\<open>error_message\<close>, \<^verbatim>\<open>updated_at\<close> or \<^verbatim>\<open>deployed_at\<close>; these columns
  are optional here and stay \<open>None\<close> in the in-memory store.
\<close>

record Deployment =
  row_id :: nat
  deploy_tweet_id :: string
  parent_tweet_id :: string
  deployer_twitter_id :: string
  fee_recipient_twitter_id :: string
  fee_recipient_wallet :: string
  token_name :: "string option"
  token_symbol :: "string option"
  token_address :: "string option"
  pool_id :: "string option"
  tx_hash :: "string option"
  status :: DeploymentStatus
  error_message :: "string option"
  created_at :: nat
  updated_at :: "nat option"
  deployed_at :: "nat option"

text \<open>
  One row of \<^verbatim>\<open>rate_limits\<close>.  The in-memory store keeps the date only, so the
  counter is optional.
\<close>

record RateLimit =
  last_deploy_at :: nat
  deploy_count_24h :: "nat option"

text \<open>
  The state behind the \<^verbatim>\<open>Database\<close> object.  The object reads and writes either
  its three in-memory maps (\<^verbatim>\<open>MOCK_DB\<close>) or the three Postgres tables, never both in
  one process, so one record stands for whichever store is in use.  The deployments are
  kept as the list of rows in insertion order, so that the number of rows for a key is
  something to be proved and not a property of the representation;
  \<open>deployments_id_seq\<close> is the sequence behind the \<^verbatim>\<open>SERIAL\<close> column.
\<close>

record Database =
  users :: "string \<rightharpoonup> User"
  deployments :: "Deployment list"
  deployments_id_seq :: nat
  rate_limits :: "string \<rightharpoonup> RateLimit"

text \<open>
  What an awaited call can throw.  \<open>DuplicateKeyError\<close> is the rejection of an
  \<^verbatim>\<open>INSERT\<close> by the constraint \<^verbatim>\<open>unique_deploy_tweet\<close>; \<open>StorageError m\<close> is
  any other rejection of a query by the driver or the server (connection loss, a
  time-out, a length or check violation), with its message; \<open>TypeError m\<close> is a
  property read on \<^verbatim>\<open>undefined\<close>.
\<close>

datatype exn = DuplicateKeyError | StorageError string | TypeError string

fun message :: "exn \<Rightarrow> string" where
  "message DuplicateKeyError =
     ''duplicate key value violates unique constraint '' @ [CHR 0x22] @
     ''unique_deploy_tweet'' @ [CHR 0x22]"
| "message (StorageError m) = m"
| "message (TypeError m) = m"

section \<open>Strings\<close>

text \<open>
  Text is a list of characters.  Case mapping acts on the ASCII letters and leaves
  every other character alone.
\<close>

definition toLowerCase_char :: "char \<Rightarrow> char" where
  "toLowerCase_char c =
     (let n = (of_char c :: nat) in if 65 \<le> n \<and> n \<le> 90 then char_of (n + 32) else c)"

definition toUpperCase_char :: "char \<Rightarrow> char" where
  "toUpperCase_char c =
     (let n = (of_char c :: nat) in if 97 \<le> n \<and> n \<le> 122 then char_of (n - 32) else c)"

definition toLowerCase :: "string \<Rightarrow> string" where
  "toLowerCase s = map toLowerCase_char s"

definition toUpperCase :: "string \<Rightarrow> string" where
  "toUpperCase s = map toUpperCase_char s"

text \<open>\<^verbatim>\<open>x || null\<close> and \<^verbatim>\<open>if (x)\<close> on an optional string: the empty string is falsy.\<close>

definition truthy :: "string option \<Rightarrow> bool" where
  "truthy x = (case x of None \<Rightarrow> False | Some s \<Rightarrow> s \<noteq> [])"

definition or_null :: "string option \<Rightarrow> string option" where
  "or_null x = (if truthy x then x else None)"

section \<open>The store: \<^verbatim>\<open>db/client.ts\<close>\<close>

text \<open>
  Every operation takes the configuration, its arguments, the outcome \<open>flt\<close> the
  server has in store for the query (\<open>Some m\<close>: the query is rejected with message
  \<open>m\<close> before it has any effect; \<open>None\<close>: it is executed) and the state, and returns
  the result or the exception together with the new state.  The in-memory branch issues
  no query and ignores \<open>flt\<close>.
\<close>

type_synonym 'a dbres = "(exn + 'a) \<times> Database"

subsection \<open>Users\<close>

definition getUserByTwitterId ::
  "config \<Rightarrow> string \<Rightarrow> string option \<Rightarrow> Database \<Rightarrow> (User option) dbres" where
  "getUserByTwitterId cfg twitterId flt d =
     (if MOCK_DB cfg then (Inr (users d twitterId), d)
      else case flt of
             Some m \<Rightarrow> (Inl (StorageError m), d)
           | None \<Rightarrow> (Inr (users d twitterId), d))"

definition wallet_of :: "Database \<Rightarrow> string \<Rightarrow> string option" where
  "wallet_of d twitterId = or_null (map_option wallet_address (users d twitterId))"

definition getWalletByTwitterId ::
  "config \<Rightarrow> string \<Rightarrow> string option \<Rightarrow> Database \<Rightarrow> (string option) dbres" where
  "getWalletByTwitterId cfg twitterId flt d =
     (if MOCK_DB cfg then (Inr (wallet_of d twitterId), d)
      else case flt of
             Some m \<Rightarrow> (Inl (StorageError m), d)
           | None \<Rightarrow> (Inr (wallet_of d twitterId), d))"

text \<open>
  \<^verbatim>\<open>upsertUser(twitterId, walletAddress, encryptedKey = null)\<close>.  Both branches
  write all three columns: the in-memory branch replaces the whole object, and the SQL is
  \<^verbatim>\<open>ON CONFLICT (twitter_id) DO UPDATE SET wallet_address = $2,
  private_key_encrypted = $3, verified_at = NOW()\<close>.
\<close>

definition upsertUser ::
  "config \<Rightarrow> string \<Rightarrow> string \<Rightarrow> string option \<Rightarrow> nat \<Rightarrow> string option \<Rightarrow> Database
     \<Rightarrow> User dbres" where
  "upsertUser cfg twitterId walletAddress encryptedKey now flt d =
     (let user = \<lparr>twitter_id = twitterId,
                  wallet_address = toLowerCase walletAddress,
                  private_key_encrypted = encryptedKey,
                  verified_at = now\<rparr>
      in if MOCK_DB cfg then (Inr user, d\<lparr>users := (users d)(twitterId \<mapsto> user)\<rparr>)
         else case flt of
                Some m \<Rightarrow> (Inl (StorageError m), d)
              | None \<Rightarrow> (Inr user, d\<lparr>users := (users d)(twitterId \<mapsto> user)\<rparr>))"

subsection \<open>Deployments\<close>

record CreateParams =
  deployTweetId :: string
  parentTweetId :: string
  deployerTwitterId :: string
  feeRecipientTwitterId :: string
  feeRecipientWallet :: string
  tokenName :: string
  tokenSymbol :: string

definition has_row :: "string \<Rightarrow> Deployment list \<Rightarrow> bool" where
  "has_row k rows = (k \<in> set (map deploy_tweet_id rows))"

definition rows_for :: "string \<Rightarrow> Deployment list \<Rightarrow> Deployment list" where
  "rows_for k rows = filter (\<lambda>r. deploy_tweet_id r = k) rows"

text \<open>\<^verbatim>\<open>Map.prototype.set\<close>: an existing key keeps its place and gets the new value.\<close>

definition map_set :: "Deployment \<Rightarrow> Deployment list \<Rightarrow> Deployment list" where
  "map_set dep rows =
     (if has_row (deploy_tweet_id dep) rows
      then map (\<lambda>r. if deploy_tweet_id r = deploy_tweet_id dep then dep else r) rows
      else rows @ [dep])"

definition mock_deployment :: "CreateParams \<Rightarrow> nat \<Rightarrow> nat \<Rightarrow> Deployment" where
  "mock_deployment params sz now =
     \<lparr>row_id = sz + 1,
      deploy_tweet_id = deployTweetId params,
      parent_tweet_id = parentTweetId params,
      deployer_twitter_id = deployerTwitterId params,
      fee_recipient_twitter_id = feeRecipientTwitterId params,
      fee_recipient_wallet = feeRecipientWallet params,
      token_name = None,
      token_symbol = None,
      token_address = None,
      pool_id = None,
      tx_hash = None,
      status = pending,
      error_message = None,
      created_at = now,
      updated_at = None,
      deployed_at = None\<rparr>"

definition inserted_row :: "CreateParams \<Rightarrow> nat \<Rightarrow> nat \<Rightarrow> Deployment" where
  "inserted_row params serial now =
     \<lparr>row_id = serial,
      deploy_tweet_id = deployTweetId params,
      parent_tweet_id = parentTweetId params,
      deployer_twitter_id = deployerTwitterId params,
      fee_recipient_twitter_id = feeRecipientTwitterId params,
      fee_recipient_wallet = feeRecipientWallet params,
      token_name = Some (tokenName params),
      token_symbol = Some (tokenSymbol params),
      token_address = None,
      pool_id = None,
      tx_hash = None,
      status = pending,
      error_message = None,
      created_at = now,
      updated_at = Some now,
      deployed_at = None\<rparr>"

text \<open>
  \<^verbatim>\<open>createDeployment\<close>.  In memory: build the object and \<^verbatim>\<open>set\<close> it under its
  tweet id.  Postgres: \<^verbatim>\<open>INSERT ... RETURNING *\<close>; the sequence is advanced for the
  new row's id first, then \<^verbatim>\<open>unique_deploy_tweet\<close> rejects the row if the table has
  one with that \<^verbatim>\<open>deploy_tweet_id\<close>.
\<close>

definition createDeployment ::
  "config \<Rightarrow> CreateParams \<Rightarrow> nat \<Rightarrow> string option \<Rightarrow> Database \<Rightarrow> Deployment dbres" where
  "createDeployment cfg params now flt d =
     (if MOCK_DB cfg then
        (let deployment = mock_deployment params (length (deployments d)) now
         in (Inr deployment, d\<lparr>deployments := map_set deployment (deployments d)\<rparr>))
      else case flt of
             Some m \<Rightarrow> (Inl (StorageError m), d)
           | None \<Rightarrow>
               (let serial = deployments_id_seq d + 1;
                    d1 = d\<lparr>deployments_id_seq := serial\<rparr>
                in if has_row (deployTweetId params) (deployments d)
                   then (Inl DuplicateKeyError, d1)
                   else (let row = inserted_row params serial now
                         in (Inr row, d1\<lparr>deployments := deployments d @ [row]\<rparr>))))"

text \<open>
  The optional \<^verbatim>\<open>data\<close> argument of \<^verbatim>\<open>updateDeploymentStatus\<close>; its
  fields carry the prefix \<open>data_\<close> to keep them apart from those of the deployer's
  result.  An absent field (and an absent \<^verbatim>\<open>data\<close>) is \<open>None\<close>.
\<close>

record StatusData =
  data_tokenAddress :: "string option"
  data_poolId :: "string option"
  data_txHash :: "string option"
  data_errorMessage :: "string option"

definition no_data :: StatusData where
  "no_data = \<lparr>data_tokenAddress = None, data_poolId = None, data_txHash = None,
               data_errorMessage = None\<rparr>"

text \<open>\<^verbatim>\<open>if (data?.f) row.f = data.f\<close>: a falsy value leaves the column alone.\<close>

definition supplied :: "string option \<Rightarrow> string option \<Rightarrow> string option" where
  "supplied new old = (if truthy new then new else old)"

definition mock_update :: "DeploymentStatus \<Rightarrow> StatusData \<Rightarrow> Deployment \<Rightarrow> Deployment" where
  "mock_update st dat r =
     r\<lparr>status := st,
       token_address := supplied (data_tokenAddress dat) (token_address r),
       pool_id := supplied (data_poolId dat) (pool_id r),
       tx_hash := supplied (data_txHash dat) (tx_hash r)\<rparr>"

text \<open>
  The \<^verbatim>\<open>UPDATE\<close> statement as assembled from \<^verbatim>\<open>updates\<close>, with the trigger
  \<^verbatim>\<open>update_deployments_updated_at\<close> of the schema.
\<close>

definition sql_update ::
  "DeploymentStatus \<Rightarrow> StatusData \<Rightarrow> nat \<Rightarrow> Deployment \<Rightarrow> Deployment" where
  "sql_update st dat now r =
     r\<lparr>status := st,
       token_address := supplied (data_tokenAddress dat) (token_address r),
       pool_id := supplied (data_poolId dat) (pool_id r),
       tx_hash := supplied (data_txHash dat) (tx_hash r),
       error_message := supplied (data_errorMessage dat) (error_message r),
       deployed_at := (if st = deployed then Some now else deployed_at r),
       updated_at := Some now\<rparr>"

definition update_where ::
  "string \<Rightarrow> (Deployment \<Rightarrow> Deployment) \<Rightarrow> Deployment list \<Rightarrow> Deployment list" where
  "update_where k f rows = map (\<lambda>r. if deploy_tweet_id r = k then f r else r) rows"

definition updateDeploymentStatus ::
  "config \<Rightarrow> string \<Rightarrow> DeploymentStatus \<Rightarrow> StatusData \<Rightarrow> nat \<Rightarrow> string option \<Rightarrow> Database
     \<Rightarrow> unit dbres" where
  "updateDeploymentStatus cfg k st dat now flt d =
     (if MOCK_DB cfg then
        (Inr (), d\<lparr>deployments := update_where k (mock_update st dat) (deployments d)\<rparr>)
      else case flt of
             Some m \<Rightarrow> (Inl (StorageError m), d)
           | None \<Rightarrow>
               (Inr (), d\<lparr>deployments := update_where k (sql_update st dat now) (deployments d)\<rparr>))"

definition getDeploymentByTweetId ::
  "config \<Rightarrow> string \<Rightarrow> string option \<Rightarrow> Database \<Rightarrow> (Deployment option) dbres" where
  "getDeploymentByTweetId cfg k flt d =
     (if MOCK_DB cfg then (Inr (find (\<lambda>r. deploy_tweet_id r = k) (deployments d)), d)
      else case flt of
             Some m \<Rightarrow> (Inl (StorageError m), d)
           | None \<Rightarrow> (Inr (find (\<lambda>r. deploy_tweet_id r = k) (deployments d)), d))"

definition deploymentExists ::
  "config \<Rightarrow> string \<Rightarrow> string option \<Rightarrow> Database \<Rightarrow> bool dbres" where
  "deploymentExists cfg k flt d =
     (if MOCK_DB cfg then (Inr (has_row k (deployments d)), d)
      else case flt of
             Some m \<Rightarrow> (Inl (StorageError m), d)
           | None \<Rightarrow> (Inr (has_row k (deployments d)), d))"

subsection \<open>Rate limiting\<close>

definition checkRateLimit ::
  "config \<Rightarrow> string \<Rightarrow> nat \<Rightarrow> nat \<Rightarrow> string option \<Rightarrow> Database \<Rightarrow> bool dbres" where
  "checkRateLimit cfg twitterId cooldownMs now flt d =
     (let answer = (case rate_limits d twitterId of
                      None \<Rightarrow> True
                    | Some rl \<Rightarrow> int now - int (last_deploy_at rl) \<ge> int cooldownMs)
      in if MOCK_DB cfg then (Inr answer, d)
         else case flt of
                Some m \<Rightarrow> (Inl (StorageError m), d)
              | None \<Rightarrow> (Inr answer, d))"

definition recordDeployAttempt ::
  "config \<Rightarrow> string \<Rightarrow> nat \<Rightarrow> string option \<Rightarrow> Database \<Rightarrow> unit dbres" where
  "recordDeployAttempt cfg twitterId now flt d =
     (if MOCK_DB cfg then
        (Inr (), d\<lparr>rate_limits := (rate_limits d)(twitterId \<mapsto>
                       \<lparr>last_deploy_at = now, deploy_count_24h = None\<rparr>)\<rparr>)
      else case flt of
             Some m \<Rightarrow> (Inl (StorageError m), d)
           | None \<Rightarrow>
               (Inr (), d\<lparr>rate_limits := (rate_limits d)(twitterId \<mapsto>
                  (case rate_limits d twitterId of
                     None \<Rightarrow> \<lparr>last_deploy_at = now, deploy_count_24h = Some 1\<rparr>
                   | Some rl \<Rightarrow> \<lparr>last_deploy_at = now,
                                 deploy_count_24h = map_option (\<lambda>c. c + 1) (deploy_count_24h rl)\<rparr>))\<rparr>))"

section \<open>The wallet resolver: \<^verbatim>\<open>services/WalletResolver.ts\<close>\<close>

definition resolve ::
  "config \<Rightarrow> string \<Rightarrow> string option \<Rightarrow> Database \<Rightarrow> (string option) dbres" where
  "resolve cfg twitterId flt d = getWalletByTwitterId cfg twitterId flt d"

definition hasWallet :: "config \<Rightarrow> string \<Rightarrow> string option \<Rightarrow> Database \<Rightarrow> bool dbres" where
  "hasWallet cfg twitterId flt d =
     (case resolve cfg twitterId flt d of
        (Inl e, d') \<Rightarrow> (Inl e, d')
      | (Inr wallet, d') \<Rightarrow> (Inr (wallet \<noteq> None), d'))"

text \<open>
  \<^verbatim>\<open>link(twitterId, walletAddress)\<close> calls \<^verbatim>\<open>db.upsertUser(twitterId,
  walletAddress)\<close>: the third parameter takes its default \<^verbatim>\<open>null\<close>.
\<close>

definition link ::
  "config \<Rightarrow> string \<Rightarrow> string \<Rightarrow> nat \<Rightarrow> string option \<Rightarrow> Database \<Rightarrow> unit dbres" where
  "link cfg twitterId walletAddress now flt d =
     (case upsertUser cfg twitterId walletAddress None now flt d of
        (Inl e, d') \<Rightarrow> (Inl e, d')
      | (Inr u, d') \<Rightarrow> (Inr (), d'))"

section \<open>The deployer: \<^verbatim>\<open>services/BlockchainDeployer.ts\<close>\<close>

text \<open>
  What an awaited call to an external collaborator does: it completes with a value, or
  it rejects with an exception whose \<^verbatim>\<open>message\<close> is the given string (empty when the
  thrown value has none).
\<close>

datatype 'a attempt = Completes 'a | Rejects string

text \<open>
  The answers of the launch API and of the chain to the four awaited calls of
  \<^verbatim>\<open>deploy\<close>: \<^verbatim>\<open>fourMemeService.login\<close> (the access token),
  \<^verbatim>\<open>fourMemeService.getTokenCreatePayload\<close> (\<^verbatim>\<open>createArg\<close> and
  \<^verbatim>\<open>signature\<close>), \<^verbatim>\<open>contract.createToken\<close> (the hash of the submitted
  transaction) and \<^verbatim>\<open>tx.wait\<close>.
\<close>

record chain_env =
  login_answer :: "string attempt"
  payload_answer :: "(string \<times> string) attempt"
  createToken_answer :: "string attempt"
  wait_answer :: "unit attempt"

record DeploymentResult =
  success :: bool
  tokenAddress :: "string option"
  poolId :: "string option"
  txHash :: "string option"
  error :: "string option"

record DeployParams =
  dp_name :: string
  dp_symbol :: string
  dp_feeRecipient :: "string option"

text \<open>The calls a job makes, in the order it makes them.\<close>

datatype event =
    Db_deploymentExists string
  | Db_getWalletByTwitterId string
  | Db_createDeployment string
  | Db_updateDeploymentStatus string DeploymentStatus
  | Db_checkRateLimit string
  | Db_recordDeployAttempt string
  | Call_deploy
  | Chain_login
  | Chain_getTokenCreatePayload
  | Chain_createToken
  | Chain_wait
  | Reply_postWalletRequired string
  | Reply_postFailure string string
  | Reply_postSuccess string

text \<open>The \<^verbatim>\<open>catch\<close> of \<^verbatim>\<open>deploy\<close>: \<^verbatim>\<open>error.message || 'Unknown error'\<close>.\<close>

definition deploy_failed :: "string \<Rightarrow> DeploymentResult" where
  "deploy_failed m =
     \<lparr>success = False, tokenAddress = None, poolId = None, txHash = None,
      error = Some (if m = [] then ''Unknown error'' else m)\<rparr>"

definition mock_result :: DeploymentResult where
  "mock_result =
     \<lparr>success = True,
      tokenAddress = Some ''0xMockTokenAddress12345678901234567890123456'',
      poolId = Some ''0xMockPoolId12345678901234567890123456789012'',
      txHash = Some ''0xMockTxHash12345678901234567890123456789012'',
      error = None\<rparr>"

text \<open>
  \<^verbatim>\<open>deploy(params, signer)\<close>: the result and the external calls made.  The first
  statement of the \<^verbatim>\<open>try\<close> block reads \<^verbatim>\<open>signer.address\<close>, which throws when no
  signer was passed.  The transaction \<^verbatim>\<open>tx\<close> is local to the \<^verbatim>\<open>try\<close> block: the
  \<^verbatim>\<open>catch\<close> returns \<^verbatim>\<open>success\<close> and \<^verbatim>\<open>error\<close> only.
\<close>

definition deploy ::
  "config \<Rightarrow> chain_env \<Rightarrow> DeployParams \<Rightarrow> string option \<Rightarrow> DeploymentResult \<times> event list" where
  "deploy cfg chain params signer =
     (if MOCK_CHAIN cfg then (mock_result, [])
      else case signer of
        None \<Rightarrow>
          (deploy_failed (''Cannot read properties of undefined (reading '' @ [CHR 0x27] @
                          ''address'' @ [CHR 0x27] @ '')''), [])
      | Some account \<Rightarrow>
         (case login_answer chain of
            Rejects m \<Rightarrow> (deploy_failed m, [Chain_login])
          | Completes accessToken \<Rightarrow>
             (case payload_answer chain of
                Rejects m \<Rightarrow> (deploy_failed m, [Chain_login, Chain_getTokenCreatePayload])
              | Completes createArg_signature \<Rightarrow>
                 (case createToken_answer chain of
                    Rejects m \<Rightarrow>
                      (deploy_failed m,
                       [Chain_login, Chain_getTokenCreatePayload, Chain_createToken])
                  | Completes tx_hash_submitted \<Rightarrow>
                     (case wait_answer chain of
                        Rejects m \<Rightarrow>
                          (deploy_failed m,
                           [Chain_login, Chain_getTokenCreatePayload, Chain_createToken,
                            Chain_wait])
                      | Completes receipt \<Rightarrow>
                          (\<lparr>success = True,
                            tokenAddress = Some ''0xPENDING_LOG_PARSE'',
                            poolId = Some ''0x0'',
                            txHash = Some tx_hash_submitted,
                            error = None\<rparr>,
                           [Chain_login, Chain_getTokenCreatePayload, Chain_createToken,
                            Chain_wait]))))))"

section \<open>The worker: \<^verbatim>\<open>workers/deploymentWorker.ts\<close>\<close>

record TweetMention =
  tweet_id :: string
  author_id :: string
  author_username :: string
  tweet_text :: string
  in_reply_to_tweet_id :: "string option"

record DeployCommand =
  ticker :: string
  name :: string

text \<open>\<^verbatim>\<open>ParentTweetInfo\<close>; the prefix keeps its fields apart from the mention's.\<close>

record ParentTweetInfo =
  p_tweet_id :: string
  p_author_id :: string
  p_author_username :: string

record DeploymentJob =
  mention :: TweetMention
  command :: DeployCommand
  parentTweet :: ParentTweetInfo

text \<open>
  What one run of a job depends on besides the store: the clock (read once per run) and
  the answers of the external collaborators.
\<close>

record job_env =
  env_clock :: nat
  env_chain :: chain_env

text \<open>
  The state a job runs in: the store, the outcomes the server has in store for the
  queries to come (the job's first query meets the head of the list; past its end every
  query is executed), and the calls made so far.
\<close>

record World =
  db :: Database
  faults :: "string option list"
  trace :: "event list"

type_synonym 'a io = "World \<Rightarrow> (exn + 'a) \<times> World"

definition returns :: "'a \<Rightarrow> 'a io" where
  "returns x w = (Inr x, w)"

definition throws :: "exn \<Rightarrow> 'a io" where
  "throws e w = (Inl e, w)"

text \<open>\<^verbatim>\<open>const x = await m; ...\<close>: an exception of \<open>m\<close> skips the rest.\<close>

definition await :: "'a io \<Rightarrow> ('a \<Rightarrow> 'b io) \<Rightarrow> 'b io" where
  "await m f w = (case m w of (Inl e, w') \<Rightarrow> (Inl e, w') | (Inr x, w') \<Rightarrow> f x w')"

definition emit :: "event list \<Rightarrow> unit io" where
  "emit evs w = (Inr (), w\<lparr>trace := trace w @ evs\<rparr>)"

definition next_fault :: "string option list \<Rightarrow> string option" where
  "next_fault fs = (case fs of [] \<Rightarrow> None | f # rest \<Rightarrow> f)"

text \<open>A call of a store operation: it is logged and meets the next outcome.\<close>

definition query :: "event \<Rightarrow> (string option \<Rightarrow> Database \<Rightarrow> 'a dbres) \<Rightarrow> 'a io" where
  "query ev operation w =
     (case operation (next_fault (faults w)) (db w) of
        (r, d') \<Rightarrow> (r, \<lparr>db = d', faults = tl (faults w), trace = trace w @ [ev]\<rparr>))"

definition RATE_LIMIT_COOLDOWN_MS :: nat where
  "RATE_LIMIT_COOLDOWN_MS = 60 * 60 * 1000"

datatype job_return =
    Skipped_duplicate
  | Status_wallet_missing
  | Status_rate_limited
  | Status_failed "string option"
  | Status_deployed "string option" "string option" "string option"

datatype job_outcome = Returned job_return | Threw exn

text \<open>
  The reply publisher (\<^verbatim>\<open>services/ReplyPublisher.ts\<close>) catches what its send throws
  and the worker ignores what it returns, so a reply is a logged call.
  \<^verbatim>\<open>postSuccess\<close> formats its text before its \<^verbatim>\<open>try\<close>, reading
  \<^verbatim>\<open>params.tokenAddress.slice\<close>.
\<close>

definition postSuccess :: "string \<Rightarrow> string option \<Rightarrow> unit io" where
  "postSuccess replyToTweetId tokenAddress_arg =
     (case tokenAddress_arg of
        None \<Rightarrow>
          throws (TypeError (''Cannot read properties of undefined (reading '' @ [CHR 0x27] @
                             ''slice'' @ [CHR 0x27] @ '')''))
      | Some a \<Rightarrow> emit [Reply_postSuccess replyToTweetId])"

definition create_params :: "DeploymentJob \<Rightarrow> string \<Rightarrow> CreateParams" where
  "create_params data wallet =
     \<lparr>deployTweetId = tweet_id (mention data),
      parentTweetId = p_tweet_id (parentTweet data),
      deployerTwitterId = author_id (mention data),
      feeRecipientTwitterId = p_author_id (parentTweet data),
      feeRecipientWallet = wallet,
      tokenName = name (command data),
      tokenSymbol = ticker (command data)\<rparr>"

text \<open>Step 2, no wallet: the record is created, marked, and the requester is told.\<close>

definition wallet_missing_steps :: "config \<Rightarrow> job_env \<Rightarrow> DeploymentJob \<Rightarrow> job_return io" where
  "wallet_missing_steps cfg env data =
     await (query (Db_createDeployment (tweet_id (mention data)))
              (createDeployment cfg (create_params data []) (env_clock env))) (\<lambda>created.
     await (query (Db_updateDeploymentStatus (tweet_id (mention data)) wallet_missing)
              (updateDeploymentStatus cfg (tweet_id (mention data)) wallet_missing no_data
                 (env_clock env))) (\<lambda>u.
     await (emit [Reply_postWalletRequired (tweet_id (mention data))]) (\<lambda>u.
     returns Status_wallet_missing)))"

text \<open>
  Steps 4 to 7.  The worker calls \<^verbatim>\<open>blockchainDeployer.deploy\<close> with the parameter
  object only, so the deployer's \<^verbatim>\<open>signer\<close> is \<^verbatim>\<open>undefined\<close>.
\<close>

definition deploy_steps ::
  "config \<Rightarrow> job_env \<Rightarrow> DeploymentJob \<Rightarrow> string \<Rightarrow> job_return io" where
  "deploy_steps cfg env data wallet =
     await (query (Db_createDeployment (tweet_id (mention data)))
              (createDeployment cfg (create_params data wallet) (env_clock env))) (\<lambda>deployment.
     await (query (Db_updateDeploymentStatus (tweet_id (mention data)) processing)
              (updateDeploymentStatus cfg (tweet_id (mention data)) processing no_data
                 (env_clock env))) (\<lambda>u.
     await (query (Db_recordDeployAttempt (author_id (mention data)))
              (recordDeployAttempt cfg (author_id (mention data)) (env_clock env))) (\<lambda>u.
     await (emit [Call_deploy]) (\<lambda>u.
     case deploy cfg (env_chain env)
            \<lparr>dp_name = name (command data), dp_symbol = ticker (command data),
             dp_feeRecipient = Some wallet\<rparr> None of
       (result, calls) \<Rightarrow>
     await (emit calls) (\<lambda>u.
     if \<not> success result then
       await (query (Db_updateDeploymentStatus (tweet_id (mention data)) failed)
                (updateDeploymentStatus cfg (tweet_id (mention data)) failed
                   \<lparr>data_tokenAddress = None, data_poolId = None,
                    data_txHash = txHash result, data_errorMessage = error result\<rparr>
                   (env_clock env))) (\<lambda>u.
       await (emit [Reply_postFailure (tweet_id (mention data))
                      ''On-chain deployment failed. Please try again.'']) (\<lambda>u.
       returns (Status_failed (error result))))
     else
       await (query (Db_updateDeploymentStatus (tweet_id (mention data)) deployed)
                (updateDeploymentStatus cfg (tweet_id (mention data)) deployed
                   \<lparr>data_tokenAddress = tokenAddress result, data_poolId = poolId result,
                    data_txHash = txHash result, data_errorMessage = None\<rparr>
                   (env_clock env))) (\<lambda>u.
       await (postSuccess (tweet_id (mention data)) (tokenAddress result)) (\<lambda>u.
       returns (Status_deployed (tokenAddress result) (poolId result) (txHash result)))))))))"

text \<open>The body of the \<^verbatim>\<open>try\<close> block of \<^verbatim>\<open>processDeploymentJob\<close>.\<close>

definition try_block :: "config \<Rightarrow> job_env \<Rightarrow> DeploymentJob \<Rightarrow> job_return io" where
  "try_block cfg env data =
     await (query (Db_deploymentExists (tweet_id (mention data)))
              (deploymentExists cfg (tweet_id (mention data)))) (\<lambda>already.
     if already then returns Skipped_duplicate
     else
     await (query (Db_getWalletByTwitterId (p_author_id (parentTweet data)))
              (resolve cfg (p_author_id (parentTweet data)))) (\<lambda>feeRecipientWallet.
     case or_null feeRecipientWallet of
       None \<Rightarrow> wallet_missing_steps cfg env data
     | Some wallet \<Rightarrow>
     await (query (Db_checkRateLimit (author_id (mention data)))
              (checkRateLimit cfg (author_id (mention data)) RATE_LIMIT_COOLDOWN_MS
                 (env_clock env))) (\<lambda>canDeploy.
     if \<not> canDeploy then
       await (emit [Reply_postFailure (tweet_id (mention data))
                      ''Rate limited. Please wait before deploying again.'']) (\<lambda>u.
       returns Status_rate_limited)
     else deploy_steps cfg env data wallet)))"

text \<open>
  The \<^verbatim>\<open>catch\<close> block: whatever was thrown, the row of the job's tweet is marked
  \<^verbatim>\<open>failed\<close> with the message; an exception of that update is logged and dropped;
  the original exception is thrown again.
\<close>

definition catch_block :: "config \<Rightarrow> job_env \<Rightarrow> DeploymentJob \<Rightarrow> exn \<Rightarrow> unit io" where
  "catch_block cfg env data e w =
     (case query (Db_updateDeploymentStatus (tweet_id (mention data)) failed)
             (updateDeploymentStatus cfg (tweet_id (mention data)) failed
                \<lparr>data_tokenAddress = None, data_poolId = None, data_txHash = None,
                 data_errorMessage = Some (message e)\<rparr>
                (env_clock env)) w of
        (r, w') \<Rightarrow> (Inl e, w'))"

definition processDeploymentJob ::
  "config \<Rightarrow> job_env \<Rightarrow> DeploymentJob \<Rightarrow> World \<Rightarrow> job_outcome \<times> World" where
  "processDeploymentJob cfg env data w =
     (case try_block cfg env data w of
        (Inr r, w') \<Rightarrow> (Returned r, w')
      | (Inl e, w') \<Rightarrow>
          (case catch_block cfg env data e w' of (r, w'') \<Rightarrow> (Threw e, w'')))"

text \<open>One run of a job on a store, with the outcomes its queries will meet.\<close>

definition run_job ::
  "config \<Rightarrow> job_env \<Rightarrow> DeploymentJob \<Rightarrow> Database \<Rightarrow> string option list
     \<Rightarrow> job_outcome \<times> World" where
  "run_job cfg env data d fs =
     processDeploymentJob cfg env data \<lparr>db = d, faults = fs, trace = []\<rparr>"

text \<open>
  The worker takes the jobs one at a time (\<^verbatim>\<open>concurrency: 1\<close>).  A run of a list
  of jobs, each with its environment, threads the store and the pending outcomes through
  and keeps, for every job, what it returned and the calls it made.
\<close>

fun run_jobs ::
  "config \<Rightarrow> (job_env \<times> DeploymentJob) list \<Rightarrow> Database \<Rightarrow> string option list
     \<Rightarrow> (DeploymentJob \<times> job_outcome \<times> event list) list \<times> Database" where
  "run_jobs cfg [] d fs = ([], d)"
| "run_jobs cfg ((env, data) # rest) d fs =
     (case run_job cfg env data d fs of
        (out, w) \<Rightarrow>
          (case run_jobs cfg rest (db w) (faults w) of
             (log, d') \<Rightarrow> ((data, out, trace w) # log, d')))"


section \<open>The command parser: \<^verbatim>\<open>services/CommandParser.ts\<close>\<close>

text \<open>
  Character classes of the regular expressions, on ASCII: \<^verbatim>\<open>\s\<close> is tab, line
  feed, vertical tab, form feed, carriage return and space; \<^verbatim>\<open>\w\<close> is a letter, a
  digit or the underscore; \<^verbatim>\<open>.\<close> is any character but a line terminator.
\<close>

definition is_space :: "char \<Rightarrow> bool" where
  "is_space c = (let n = (of_char c :: nat) in (9 \<le> n \<and> n \<le> 13) \<or> n = 32)"

definition is_alnum :: "char \<Rightarrow> bool" where
  "is_alnum c =
     (let n = (of_char c :: nat)
      in (48 \<le> n \<and> n \<le> 57) \<or> (65 \<le> n \<and> n \<le> 90) \<or> (97 \<le> n \<and> n \<le> 122))"

datatype cclass = Space | NonSpace | WordChar | NameChar | AnyChar

fun in_class :: "cclass \<Rightarrow> char \<Rightarrow> bool" where
  "in_class Space c = is_space c"
| "in_class NonSpace c = (\<not> is_space c)"
| "in_class WordChar c = (is_alnum c \<or> c = CHR ''_'')"
| "in_class NameChar c =
     (is_alnum c \<or> is_space c \<or> c = CHR ''-'' \<or> c = CHR ''_'' \<or> c = CHR ''.'')"
| "in_class AnyChar c = (c \<noteq> CHR 0x0A \<and> c \<noteq> CHR 0x0D)"

text \<open>
  The regular expressions of the parser are sequences of the following items: a literal
  (compared without regard to case, flag \<^verbatim>\<open>i\<close>), a greedy or a lazy repetition of a
  character class with a least count, the brackets of a capture group, and the
  alternative \<^verbatim>\<open>(?:\n|$)\<close>.
\<close>

datatype item =
    Lit string
  | Greedy cclass nat
  | Lazy cclass nat
  | Open
  | Close
  | NewlineOrEnd

fun first_some :: "'a option list \<Rightarrow> 'a option" where
  "first_some [] = None"
| "first_some (Some x # rest) = Some x"
| "first_some (None # rest) = first_some rest"

definition run_length :: "cclass \<Rightarrow> string \<Rightarrow> nat" where
  "run_length cl s = length (takeWhile (in_class cl) s)"

text \<open>
  Backtracking match of a sequence of items at the start of \<open>s\<close>: the captures of the
  first way to match in the order a backtracking matcher tries them (a greedy repetition
  from the longest run down, a lazy one from the shortest up), or \<open>None\<close>.
  \<open>opened\<close> is the input as it was where the open group began.
\<close>

fun rx :: "item list \<Rightarrow> string option \<Rightarrow> string list \<Rightarrow> string \<Rightarrow> string list option" where
  "rx [] opened caps s = Some caps"
| "rx (Lit l # r) opened caps s =
     (if length l \<le> length s \<and> toLowerCase (take (length l) s) = toLowerCase l
      then rx r opened caps (drop (length l) s) else None)"
| "rx (Greedy cl n # r) opened caps s =
     first_some (map (\<lambda>k. rx r opened caps (drop k s)) (rev [n ..< Suc (run_length cl s)]))"
| "rx (Lazy cl n # r) opened caps s =
     first_some (map (\<lambda>k. rx r opened caps (drop k s)) [n ..< Suc (run_length cl s)])"
| "rx (Open # r) opened caps s = rx r (Some s) caps s"
| "rx (Close # r) opened caps s =
     (case opened of
        None \<Rightarrow> None
      | Some s0 \<Rightarrow> rx r None (caps @ [take (length s0 - length s) s0]) s)"
| "rx (NewlineOrEnd # r) opened caps s =
     (case s of
        [] \<Rightarrow> rx r opened caps []
      | c # cs \<Rightarrow> if c = CHR 0x0A then rx r opened caps cs else None)"

text \<open>\<^verbatim>\<open>text.match(re)\<close>: the match at the leftmost position that has one.\<close>

definition rx_match :: "item list \<Rightarrow> string \<Rightarrow> string list option" where
  "rx_match items s =
     first_some (map (\<lambda>i. rx items None [] (drop i s)) [0 ..< Suc (length s)])"

definition trim :: "string \<Rightarrow> string" where
  "trim s = rev (dropWhile is_space (rev (dropWhile is_space s)))"

text \<open>\<^verbatim>\<open>s.includes(part)\<close>.\<close>

definition str_includes :: "string \<Rightarrow> string \<Rightarrow> bool" where
  "str_includes s part = sublist part s"

record CommandParser =
  botUsername :: string

text \<open>The constructor stores the lower-cased bot name.\<close>

definition new_CommandParser :: "string \<Rightarrow> CommandParser" where
  "new_CommandParser botName = \<lparr>botUsername = toLowerCase botName\<rparr>"

text \<open>
  The two \<^verbatim>\<open>zod\<close> schemas: a length between 1 and 10 (50), and the whole string in
  \<^verbatim>\<open>/^[A-Z0-9]+$/i\<close> (\<^verbatim>\<open>/^[a-zA-Z0-9\s\-_.]+$/\<close>).
\<close>

definition tickerSchema :: "string \<Rightarrow> bool" where
  "tickerSchema s = (1 \<le> length s \<and> length s \<le> 10 \<and> s \<noteq> [] \<and> list_all is_alnum s)"

definition nameSchema :: "string \<Rightarrow> bool" where
  "nameSchema s =
     (1 \<le> length s \<and> length s \<le> 50 \<and> s \<noteq> [] \<and> list_all (in_class NameChar) s)"

text \<open>\<^verbatim>\<open>/ticker\s*:\s*(\S+)/i\<close>\<close>

definition ticker_regex :: "item list" where
  "ticker_regex =
     [Lit ''ticker'', Greedy Space 0, Lit '':'', Greedy Space 0,
      Open, Greedy NonSpace 1, Close]"

text \<open>\<^verbatim>\<open>/name\s*:\s*([A-Za-z0-9\s\-_.]+?)(?:\n|$)/i\<close>\<close>

definition name_regex :: "item list" where
  "name_regex =
     [Lit ''name'', Greedy Space 0, Lit '':'', Greedy Space 0,
      Open, Lazy NameChar 1, Close, NewlineOrEnd]"

text \<open>\<^verbatim>\<open>/@\w+\s+deploy\s+(\S+)\s+(.+)/i\<close>\<close>

definition simple_regex :: "item list" where
  "simple_regex =
     [Lit ''@'', Greedy WordChar 1, Greedy Space 1, Lit ''deploy'', Greedy Space 1,
      Open, Greedy NonSpace 1, Close, Greedy Space 1, Open, Greedy AnyChar 1, Close]"

text \<open>
  The ticker and the name as the parser takes them from the text: the structured format
  when both of its expressions match, the one-line format otherwise.
\<close>

definition extract_fields :: "string \<Rightarrow> (string \<times> string) option" where
  "extract_fields txt =
     (case (rx_match ticker_regex txt, rx_match name_regex txt) of
        (Some [t], Some [n]) \<Rightarrow> Some (toUpperCase (trim t), trim n)
      | other \<Rightarrow>
          (case rx_match simple_regex txt of
             Some [t, n] \<Rightarrow> Some (toUpperCase (trim t), trim n)
           | other \<Rightarrow> None))"

definition parse :: "CommandParser \<Rightarrow> string \<Rightarrow> DeployCommand option" where
  "parse this txt =
     (let normalized = toLowerCase (trim txt)
      in if \<not> str_includes normalized (''@'' @ botUsername this)
            \<or> \<not> str_includes normalized ''deploy''
         then None
         else case extract_fields txt of
                None \<Rightarrow> None
              | Some (t, n) \<Rightarrow>
                  if t = [] then None
                  else if n = [] then None
                  else if \<not> tickerSchema t then None
                  else if \<not> nameSchema n then None
                  else Some \<lparr>ticker = t, name = n\<rparr>)"

text \<open>\<^verbatim>\<open>validate(command)\<close>.\<close>

definition validate :: "DeployCommand \<Rightarrow> bool" where
  "validate cmd = (tickerSchema (ticker cmd) \<and> nameSchema (name cmd))"

section \<open>The wallet service: \<^verbatim>\<open>services/WalletService.ts\<close>\<close>

type_synonym byte = "8 word"

text \<open>
  \<^verbatim>\<open>buf.toString('hex')\<close> and \<^verbatim>\<open>Buffer.from(s, 'hex')\<close>: two lower-case digits
  per byte; decoding reads pairs of hexadecimal digits of either case and stops at the
  first pair that is not one.
\<close>

definition hex_digit :: "nat \<Rightarrow> char" where
  "hex_digit n = (if n < 10 then char_of (48 + n) else char_of (87 + n))"

definition hex_value :: "char \<Rightarrow> nat option" where
  "hex_value c =
     (let n = (of_char c :: nat)
      in if 48 \<le> n \<and> n \<le> 57 then Some (n - 48)
         else if 97 \<le> n \<and> n \<le> 102 then Some (n - 87)
         else if 65 \<le> n \<and> n \<le> 70 then Some (n - 55)
         else None)"

fun to_hex :: "byte list \<Rightarrow> string" where
  "to_hex [] = []"
| "to_hex (b # bs) = hex_digit (unat b div 16) # hex_digit (unat b mod 16) # to_hex bs"

fun from_hex :: "string \<Rightarrow> byte list" where
  "from_hex (a # b # rest) =
     (case (hex_value a, hex_value b) of
        (Some h, Some l) \<Rightarrow> of_nat (16 * h + l) # from_hex rest
      | other \<Rightarrow> [])"
| "from_hex other = []"

text \<open>\<^verbatim>\<open>s.split(c)\<close> for a one-character separator.\<close>

fun split_on :: "char \<Rightarrow> string \<Rightarrow> string list" where
  "split_on c [] = [[]]"
| "split_on c (x # xs) =
     (if x = c then [] # split_on c xs
      else case split_on c xs of
             p # ps \<Rightarrow> (x # p) # ps
           | [] \<Rightarrow> [[x]])"

text \<open>
  The functions of Node's \<^verbatim>\<open>crypto\<close> and \<^verbatim>\<open>Buffer\<close> that the service calls and
  that are not repository code, taken as parameters: AES-256-CBC encryption and
  decryption of a byte string under a key and an initialisation vector (\<open>None\<close> when the
  call throws), and the UTF-8 encoding and decoding of text.
\<close>

record node_crypto =
  cbc_encrypt :: "byte list \<Rightarrow> byte list \<Rightarrow> byte list \<Rightarrow> byte list option"
  cbc_decrypt :: "byte list \<Rightarrow> byte list \<Rightarrow> byte list \<Rightarrow> byte list option"
  utf8_bytes :: "string \<Rightarrow> byte list"
  utf8_text :: "byte list \<Rightarrow> string"

record WalletService =
  encryptionKey :: "byte list"

text \<open>The constructor: the configured key is hexadecimal text for 32 bytes.\<close>

definition new_WalletService :: "string option \<Rightarrow> string + WalletService" where
  "new_WalletService ENCRYPTION_KEY =
     (case ENCRYPTION_KEY of
        None \<Rightarrow> Inl ''ENCRYPTION_KEY not set in environment''
      | Some k \<Rightarrow>
          if k = [] then Inl ''ENCRYPTION_KEY not set in environment''
          else if length (from_hex k) \<noteq> 32
               then Inl ''ENCRYPTION_KEY must be 32 bytes (64 hex characters)''
               else Inr \<lparr>encryptionKey = from_hex k\<rparr>)"

text \<open>
  \<^verbatim>\<open>encrypt(text)\<close>, with the 16 random bytes of \<^verbatim>\<open>crypto.randomBytes(16)\<close> as
  the argument \<open>iv\<close>; \<open>None\<close> when the cipher throws.
\<close>

definition encrypt :: "node_crypto \<Rightarrow> WalletService \<Rightarrow> byte list \<Rightarrow> string \<Rightarrow> string option" where
  "encrypt lib this iv txt =
     (case cbc_encrypt lib (encryptionKey this) iv (utf8_bytes lib txt) of
        None \<Rightarrow> None
      | Some encrypted \<Rightarrow> Some (to_hex iv @ '':'' @ to_hex encrypted))"

text \<open>
  \<^verbatim>\<open>decrypt(encryptedData)\<close>: every exception in the \<^verbatim>\<open>try\<close> block becomes the
  one error \<^verbatim>\<open>Failed to decrypt data. Check ENCRYPTION_KEY.\<close>
\<close>

definition decrypt :: "node_crypto \<Rightarrow> WalletService \<Rightarrow> string \<Rightarrow> string + string" where
  "decrypt lib this encryptedData =
     (case split_on CHR '':'' encryptedData of
        ivHex # encryptedText # others \<Rightarrow>
          if ivHex = [] \<or> encryptedText = []
          then Inl ''Failed to decrypt data. Check ENCRYPTION_KEY.''
          else (case cbc_decrypt lib (encryptionKey this) (from_hex ivHex)
                       (from_hex encryptedText) of
                  None \<Rightarrow> Inl ''Failed to decrypt data. Check ENCRYPTION_KEY.''
                | Some decrypted \<Rightarrow> Inr (utf8_text lib decrypted))
      | other \<Rightarrow> Inl ''Failed to decrypt data. Check ENCRYPTION_KEY.'')"

section \<open>Notions used in the statements\<close>

text \<open>
  The outcome a query really meets: the in-memory store issues no query, so nothing can
  be rejected there.
\<close>

definition effective :: "config \<Rightarrow> string option \<Rightarrow> string option" where
  "effective cfg flt = (if MOCK_DB cfg then None else flt)"

text \<open>No query of the run is rejected.\<close>

definition accepted :: "string option list \<Rightarrow> bool" where
  "accepted fs = (set fs \<subseteq> {None})"

text \<open>The row \<^verbatim>\<open>createDeployment\<close> stores when it stores one.\<close>

definition new_row :: "config \<Rightarrow> CreateParams \<Rightarrow> nat \<Rightarrow> Database \<Rightarrow> Deployment" where
  "new_row cfg p t d =
     (if MOCK_DB cfg then mock_deployment p (length (deployments d)) t
      else inserted_row p (deployments_id_seq d + 1) t)"

text \<open>
  In the log of a run of jobs, the number of jobs for tweet \<open>k\<close> that called the
  deployer.
\<close>

definition deploys_for ::
  "string \<Rightarrow> (DeploymentJob \<times> job_outcome \<times> event list) list \<Rightarrow> nat" where
  "deploys_for k log =
     length (filter (\<lambda>(job, out, calls). tweet_id (mention job) = k \<and> Call_deploy \<in> set calls)
               log)"

text \<open>
  The specification's ``the text contains \<open>part\<close>, case-insensitively'': some
  contiguous piece of the text equals \<open>part\<close> up to the case of its letters.
\<close>

definition contains_ci :: "string \<Rightarrow> string \<Rightarrow> bool" where
  "contains_ci txt part = (\<exists>u. sublist u txt \<and> toLowerCase u = toLowerCase part)"

section \<open>Example configurations, states and jobs\<close>

definition production :: config where
  "production = \<lparr>MOCK_DB = False, MOCK_CHAIN = False\<rparr>"

definition mock_store :: config where
  "mock_store = \<lparr>MOCK_DB = True, MOCK_CHAIN = False\<rparr>"

definition all_mock :: config where
  "all_mock = \<lparr>MOCK_DB = True, MOCK_CHAIN = True\<rparr>"

definition ex_empty_db :: Database where
  "ex_empty_db =
     \<lparr>users = Map.empty, deployments = [], deployments_id_seq = 0, rate_limits = Map.empty\<rparr>"

text \<open>A store in which identity 42 holds a generated wallet with its encrypted key.\<close>

definition ex_custodial_db :: Database where
  "ex_custodial_db =
     \<lparr>users = [''42'' \<mapsto>
                 \<lparr>twitter_id = ''42'',
                  wallet_address = ''0x1111111111111111111111111111111111111111'',
                  private_key_encrypted =
                    Some ''00112233445566778899aabbccddeeff:0f0e0d0c0b0a09080706050403020100'',
                  verified_at = 1\<rparr>],
      deployments = [],
      deployments_id_seq = 0,
      rate_limits = Map.empty\<rparr>"

text \<open>Tweet 1001 by user 7, a reply to tweet 1000 by user 8.\<close>

definition ex_job :: DeploymentJob where
  "ex_job =
     \<lparr>mention = \<lparr>tweet_id = ''1001'', author_id = ''7'', author_username = ''alice'',
                 tweet_text = ''@mybot deploy CAT Cat Coin'',
                 in_reply_to_tweet_id = Some ''1000''\<rparr>,
      command = \<lparr>ticker = ''CAT'', name = ''Cat Coin''\<rparr>,
      parentTweet = \<lparr>p_tweet_id = ''1000'', p_author_id = ''8'', p_author_username = ''bob''\<rparr>\<rparr>"

definition ex_params :: CreateParams where
  "ex_params = create_params ex_job ''0x2222222222222222222222222222222222222222''"

text \<open>
  A chain on which the transaction is submitted with hash \<^verbatim>\<open>0xabc\<close> and then fails
  while it is waited for.
\<close>

definition ex_chain :: chain_env where
  "ex_chain =
     \<lparr>login_answer = Completes ''token'',
      payload_answer = Completes (''0x01'', ''0x02''),
      createToken_answer = Completes ''0xabc'',
      wait_answer = Rejects ''transaction execution reverted''\<rparr>"

definition ex_env :: job_env where
  "ex_env = \<lparr>env_clock = 5000, env_chain = ex_chain\<rparr>"

text \<open>User 8 has linked a wallet.\<close>

definition ex_linked_db :: Database where
  "ex_linked_db =
     \<lparr>users = [''8'' \<mapsto>
                 \<lparr>twitter_id = ''8'',
                  wallet_address = ''0x2222222222222222222222222222222222222222'',
                  private_key_encrypted = None,
                  verified_at = 1\<rparr>],
      deployments = [],
      deployments_id_seq = 0,
      rate_limits = Map.empty\<rparr>"

text \<open>Moreover user 7 made an attempt one second before the clock of \<open>ex_env\<close>.\<close>

definition ex_limited_db :: Database where
  "ex_limited_db =
     ex_linked_db\<lparr>rate_limits :=
       [''7'' \<mapsto> \<lparr>last_deploy_at = 4000, deploy_count_24h = Some 1\<rparr>]\<rparr>"

text \<open>The deployment of tweet 1001 has succeeded.\<close>

definition ex_deployed_row :: Deployment where
  "ex_deployed_row =
     \<lparr>row_id = 1, deploy_tweet_id = ''1001'', parent_tweet_id = ''1000'',
      deployer_twitter_id = ''7'', fee_recipient_twitter_id = ''8'',
      fee_recipient_wallet = ''0x2222222222222222222222222222222222222222'',
      token_name = Some ''Cat Coin'', token_symbol = Some ''CAT'',
      token_address = Some ''0xPENDING_LOG_PARSE'', pool_id = Some ''0x0'',
      tx_hash = Some ''0xabc'', status = deployed, error_message = None,
      created_at = 1000, updated_at = Some 3000, deployed_at = Some 3000\<rparr>"

definition ex_deployed_db :: Database where
  "ex_deployed_db = ex_linked_db\<lparr>deployments := [ex_deployed_row], deployments_id_seq := 1\<rparr>"

text \<open>The first of the parser's unit tests that must fail: no mention of the bot.\<close>

definition ex_no_mention :: string where
  "ex_no_mention =
     ''deploy'' @ [CHR 0x0A] @ ''ticker: TEST'' @ [CHR 0x0A] @ ''name: Test Token''"

text \<open>
  A stand-in for the library, for the example only: its ``cipher'' puts the
  initialisation vector in front of the plain bytes, and its text encoding is one byte
  per character.
\<close>

definition ex_lib :: node_crypto where
  "ex_lib =
     \<lparr>cbc_encrypt = (\<lambda>k iv m. Some (iv @ m)),
      cbc_decrypt = (\<lambda>k iv c. Some (drop (length iv) c)),
      utf8_bytes = map (\<lambda>c. of_nat (of_char c)),
      utf8_text = map (\<lambda>b. char_of (unat b))\<rparr>"

definition ex_hexkey :: string where
  "ex_hexkey = ''000102030405060708090a0b0c0d0e0f101112131415161718191A1B1C1D1E1F''"

definition ex_iv :: "byte list" where
  "ex_iv =
     [0xA0, 0xA1, 0xA2, 0xA3, 0xA4, 0xA5, 0xA6, 0xA7,
      0xA8, 0xA9, 0xAA, 0xAB, 0xAC, 0xAD, 0xAE, 0xFF]"

section \<open>Verified properties\<close>

subsection \<open>Rows and keys\<close>

lemmas store_defs =
  deploymentExists_def resolve_def getWalletByTwitterId_def createDeployment_def
  updateDeploymentStatus_def checkRateLimit_def recordDeployAttempt_def

lemma keys_update_where:
  "(\<And>r. deploy_tweet_id (f r) = deploy_tweet_id r) \<Longrightarrow>
     map deploy_tweet_id (update_where k f rows) = map deploy_tweet_id rows"
  by (induction rows) (auto simp: update_where_def)

lemma keys_sql_update [simp]:
  "map deploy_tweet_id (update_where k (sql_update st dat now) rows) = map deploy_tweet_id rows"
  by (rule keys_update_where) (simp add: sql_update_def)

lemma keys_mock_update [simp]:
  "map deploy_tweet_id (update_where k (mock_update st dat) rows) = map deploy_tweet_id rows"
  by (rule keys_update_where) (simp add: mock_update_def)

lemma keys_replace:
  "deploy_tweet_id dep = k \<Longrightarrow>
     map deploy_tweet_id (map (\<lambda>r. if deploy_tweet_id r = k then dep else r) rows) =
       map deploy_tweet_id rows"
  by (induction rows) auto

lemma keys_map_set:
  "set (map deploy_tweet_id (map_set dep rows)) =
     insert (deploy_tweet_id dep) (set (map deploy_tweet_id rows))"
  by (auto simp: map_set_def has_row_def)

lemma has_row_map_set [simp]:
  "has_row k (map_set dep rows) = (k = deploy_tweet_id dep \<or> has_row k rows)"
  using keys_map_set[of dep rows] by (auto simp: has_row_def)

lemma has_row_update [simp]:
  "has_row k' (update_where k (sql_update st dat now) rows) = has_row k' rows"
  "has_row k' (update_where k (mock_update st dat) rows) = has_row k' rows"
  by (simp_all add: has_row_def)

lemma has_row_append [simp]:
  "has_row k (rows @ [r]) = (has_row k rows \<or> k = deploy_tweet_id r)"
  by (auto simp: has_row_def)

lemma rows_for_append [simp]:
  "rows_for k (rows @ [r]) = rows_for k rows @ (if deploy_tweet_id r = k then [r] else [])"
  by (simp add: rows_for_def)

lemma rows_for_absent: "\<not> has_row k rows \<Longrightarrow> rows_for k rows = []"
  by (induction rows) (auto simp: rows_for_def has_row_def)

lemma rows_for_update_where:
  "(\<And>r. deploy_tweet_id (f r) = deploy_tweet_id r) \<Longrightarrow>
     rows_for k' (update_where k f rows) =
       (if k' = k then map f (rows_for k rows) else rows_for k' rows)"
  by (induction rows) (auto simp: rows_for_def update_where_def)

lemma rows_for_length_one:
  "distinct (map deploy_tweet_id rows) \<Longrightarrow> has_row k rows \<Longrightarrow> length (rows_for k rows) = 1"
proof (induction rows)
  case Nil
  then show ?case by (simp add: has_row_def)
next
  case (Cons r rows)
  show ?case
  proof (cases "deploy_tweet_id r = k")
    case True
    with Cons.prems have "\<not> has_row k rows" by (auto simp: has_row_def)
    then have "rows_for k rows = []" by (rule rows_for_absent)
    with True show ?thesis by (simp add: rows_for_def)
  next
    case False
    with Cons show ?thesis by (auto simp: rows_for_def has_row_def)
  qed
qed

lemma rows_for_replace_length:
  "deploy_tweet_id dep = k \<Longrightarrow>
     length (rows_for k (map (\<lambda>r. if deploy_tweet_id r = k then dep else r) rows)) =
       length (rows_for k rows)"
  by (induction rows) (auto simp: rows_for_def)

lemma rows_for_map_set_length:
  "distinct (map deploy_tweet_id rows) \<Longrightarrow>
     length (rows_for (deploy_tweet_id dep) (map_set dep rows)) = 1"
  by (auto simp: map_set_def rows_for_replace_length rows_for_length_one rows_for_absent)

lemma distinct_map_set:
  assumes "distinct (map deploy_tweet_id rows)"
  shows "distinct (map deploy_tweet_id (map_set dep rows))"
proof (cases "has_row (deploy_tweet_id dep) rows")
  case True
  then have "map deploy_tweet_id (map_set dep rows) = map deploy_tweet_id rows"
    by (simp add: map_set_def keys_replace del: map_map)
  with assms show ?thesis by simp
next
  case False
  then show ?thesis using assms by (simp add: map_set_def has_row_def)
qed

subsection \<open>The wallet resolver\<close>

lemma toLowerCase_example:
  "toLowerCase ''0xABCDEF2222222222222222222222222222222222'' =
     ''0xabcdef2222222222222222222222222222222222''"
  by code_simp

text \<open>
  C5 (as the code has it).  Whenever the store accepts the write, \<^verbatim>\<open>link(identity,
  address)\<close> succeeds and leaves for that identity exactly the row made of the identity,
  the lower-cased address, a null custodial key and the current time: the address is
  overwritten and whatever key was stored is discarded.  No other user, no deployment
  and no rate-limit record changes.
\<close>

theorem link_overwrites_address_and_clears_key:
  assumes "MOCK_DB cfg \<or> flt = None"
  shows "fst (link cfg twitterId walletAddress now flt d) = Inr ()
       \<and> users (snd (link cfg twitterId walletAddress now flt d)) =
           (users d)(twitterId \<mapsto>
              \<lparr>twitter_id = twitterId, wallet_address = toLowerCase walletAddress,
               private_key_encrypted = None, verified_at = now\<rparr>)
       \<and> deployments (snd (link cfg twitterId walletAddress now flt d)) = deployments d
       \<and> rate_limits (snd (link cfg twitterId walletAddress now flt d)) = rate_limits d"
  using assms by (auto simp: link_def upsertUser_def Let_def)

theorem link_overwrites_address_and_clears_key_witness:
  "fst (link production ''42'' ''0xABCDEF2222222222222222222222222222222222'' 2 None
          ex_custodial_db) = Inr ()
   \<and> users (snd (link production ''42'' ''0xABCDEF2222222222222222222222222222222222'' 2 None
                   ex_custodial_db)) ''42'' =
       Some \<lparr>twitter_id = ''42'',
             wallet_address = ''0xabcdef2222222222222222222222222222222222'',
             private_key_encrypted = None, verified_at = 2\<rparr>"
  using link_overwrites_address_and_clears_key
          [of production None "''42''" "''0xABCDEF2222222222222222222222222222222222''" 2
              ex_custodial_db]
  by (simp add: toLowerCase_example)

text \<open>
  C5 as stated fails: identity 42 has a stored encrypted key, and after
  \<^verbatim>\<open>link\<close> without a key the custodial-key field is null.
\<close>

theorem link_keeps_custodial_key_counterexample:
  "map_option private_key_encrypted (users ex_custodial_db ''42'') =
     Some (Some ''00112233445566778899aabbccddeeff:0f0e0d0c0b0a09080706050403020100'')
   \<and> fst (link production ''42'' ''0x2222222222222222222222222222222222222222'' 2 None
            ex_custodial_db) = Inr ()
   \<and> map_option private_key_encrypted
        (users (snd (link production ''42'' ''0x2222222222222222222222222222222222222222'' 2
                       None ex_custodial_db)) ''42'') = Some None"
  by (simp add: link_def upsertUser_def production_def ex_custodial_db_def Let_def)

subsection \<open>Creating a deployment twice\<close>

lemma create_twice_rows:
  assumes "distinct (map deploy_tweet_id (deployments d))"
      and "deployTweetId p2 = deployTweetId p1"
  shows "length (rows_for (deployTweetId p1)
           (deployments (snd (createDeployment cfg p2 t2 None
                                (snd (createDeployment cfg p1 t1 None d)))))) = 1"
proof (cases "MOCK_DB cfg")
  case True
  have k2: "deploy_tweet_id (mock_deployment p2 n t) = deployTweetId p1" for n t
    using assms(2) by (simp add: mock_deployment_def)
  let ?rows1 = "map_set (mock_deployment p1 (length (deployments d)) t1) (deployments d)"
  have "distinct (map deploy_tweet_id ?rows1)"
    using assms(1) by (rule distinct_map_set)
  then have "length (rows_for (deploy_tweet_id (mock_deployment p2 (length ?rows1) t2))
                      (map_set (mock_deployment p2 (length ?rows1) t2) ?rows1)) = 1"
    by (rule rows_for_map_set_length)
  with True show ?thesis by (simp add: createDeployment_def Let_def k2)
next
  case False
  show ?thesis
  proof (cases "has_row (deployTweetId p1) (deployments d)")
    case True
    with False assms show ?thesis
      by (simp add: createDeployment_def Let_def rows_for_length_one)
  next
    case h: False
    with False assms show ?thesis
      by (simp add: createDeployment_def Let_def inserted_row_def rows_for_absent)
  qed
qed

lemma create_twice_signal:
  assumes "deployTweetId p2 = deployTweetId p1"
  shows "\<not> MOCK_DB cfg \<longrightarrow>
           fst (createDeployment cfg p2 t2 None (snd (createDeployment cfg p1 t1 None d))) =
             Inl DuplicateKeyError
         \<and> deployments (snd (createDeployment cfg p2 t2 None
                               (snd (createDeployment cfg p1 t1 None d)))) =
             deployments (snd (createDeployment cfg p1 t1 None d))"
  using assms by (auto simp: createDeployment_def Let_def inserted_row_def)

lemma create_twice_mock:
  "MOCK_DB cfg \<longrightarrow>
     fst (createDeployment cfg p2 t2 None (snd (createDeployment cfg p1 t1 None d))) =
       Inr (mock_deployment p2 (length (deployments (snd (createDeployment cfg p1 t1 None d)))) t2)"
  by (auto simp: createDeployment_def Let_def)

subsection \<open>Running a job, step by step\<close>

lemma effective_simps [simp]:
  "MOCK_DB cfg \<Longrightarrow> effective cfg flt = None"
  "effective cfg None = None"
  by (simp_all add: effective_def)

lemma accepted_next [simp]: "accepted fs \<Longrightarrow> next_fault fs = None"
  by (cases fs) (auto simp: accepted_def next_fault_def)

lemma accepted_tl [simp]: "accepted fs \<Longrightarrow> accepted (tl fs)"
  by (cases fs) (auto simp: accepted_def)

lemma accepted_Nil [simp]: "accepted []"
  by (simp add: accepted_def)

lemma await_unfold:
  "await m f w =
     (case fst (m w) of Inl e \<Rightarrow> (Inl e, snd (m w)) | Inr x \<Rightarrow> f x (snd (m w)))"
  by (simp add: await_def split: prod.split sum.split)

lemma query_unfold:
  "query ev operation w =
     (fst (operation (next_fault (faults w)) (db w)),
      \<lparr>db = snd (operation (next_fault (faults w)) (db w)), faults = tl (faults w),
       trace = trace w @ [ev]\<rparr>)"
  by (simp add: query_def split: prod.split)

lemma read_only [simp]:
  "snd (deploymentExists cfg k flt d) = d"
  "snd (resolve cfg u flt d) = d"
  "snd (checkRateLimit cfg u c t flt d) = d"
  by (simp_all add: store_defs Let_def split: option.split)

lemma read_fst:
  "fst (deploymentExists cfg k flt d) =
     (case effective cfg flt of
        Some m \<Rightarrow> Inl (StorageError m)
      | None \<Rightarrow> Inr (has_row k (deployments d)))"
  "fst (resolve cfg u flt d) =
     (case effective cfg flt of
        Some m \<Rightarrow> Inl (StorageError m)
      | None \<Rightarrow> Inr (wallet_of d u))"
  "fst (checkRateLimit cfg u c t flt d) =
     (case effective cfg flt of
        Some m \<Rightarrow> Inl (StorageError m)
      | None \<Rightarrow> Inr (case rate_limits d u of
                       None \<Rightarrow> True
                     | Some rl \<Rightarrow> int c \<le> int t - int (last_deploy_at rl)))"
  by (auto simp: store_defs effective_def Let_def split: option.split)

lemma write_fst:
  "fst (updateDeploymentStatus cfg k st dat t flt d) =
     (case effective cfg flt of Some m \<Rightarrow> Inl (StorageError m) | None \<Rightarrow> Inr ())"
  "fst (recordDeployAttempt cfg u t flt d) =
     (case effective cfg flt of Some m \<Rightarrow> Inl (StorageError m) | None \<Rightarrow> Inr ())"
  "fst (createDeployment cfg p t flt d) =
     (case effective cfg flt of
        Some m \<Rightarrow> Inl (StorageError m)
      | None \<Rightarrow>
          if MOCK_DB cfg then Inr (mock_deployment p (length (deployments d)) t)
          else if has_row (deployTweetId p) (deployments d) then Inl DuplicateKeyError
          else Inr (inserted_row p (deployments_id_seq d + 1) t))"
  by (auto simp: store_defs effective_def Let_def split: option.split)

lemma op_deployments:
  "deployments (snd (createDeployment cfg p t flt d)) =
     (case effective cfg flt of
        Some m \<Rightarrow> deployments d
      | None \<Rightarrow>
          if MOCK_DB cfg
          then map_set (mock_deployment p (length (deployments d)) t) (deployments d)
          else if has_row (deployTweetId p) (deployments d) then deployments d
          else deployments d @ [inserted_row p (deployments_id_seq d + 1) t])"
  "deployments (snd (updateDeploymentStatus cfg k st dat t flt d)) =
     (case effective cfg flt of
        Some m \<Rightarrow> deployments d
      | None \<Rightarrow>
          update_where k (if MOCK_DB cfg then mock_update st dat else sql_update st dat t)
            (deployments d))"
  by (auto simp: store_defs effective_def Let_def split: option.split)

lemma other_tables [simp]:
  "rate_limits (snd (createDeployment cfg p t flt d)) = rate_limits d"
  "users (snd (createDeployment cfg p t flt d)) = users d"
  "rate_limits (snd (updateDeploymentStatus cfg k st dat t flt d)) = rate_limits d"
  "users (snd (updateDeploymentStatus cfg k st dat t flt d)) = users d"
  "deployments_id_seq (snd (updateDeploymentStatus cfg k st dat t flt d)) =
     deployments_id_seq d"
  "deployments (snd (recordDeployAttempt cfg u t flt d)) = deployments d"
  "users (snd (recordDeployAttempt cfg u t flt d)) = users d"
  "deployments_id_seq (snd (recordDeployAttempt cfg u t flt d)) = deployments_id_seq d"
  by (simp_all add: store_defs Let_def split: option.split)

lemma new_row_fields [simp]:
  "deploy_tweet_id (new_row cfg p t d) = deployTweetId p"
  "status (new_row cfg p t d) = pending"
  "tx_hash (new_row cfg p t d) = None"
  by (simp_all add: new_row_def mock_deployment_def inserted_row_def)

lemma create_fresh:
  assumes "effective cfg flt = None" and "\<not> has_row (deployTweetId p) (deployments d)"
  shows "fst (createDeployment cfg p t flt d) = Inr (new_row cfg p t d)"
    and "deployments (snd (createDeployment cfg p t flt d)) = deployments d @ [new_row cfg p t d]"
  using assms
  by (simp_all add: write_fst op_deployments new_row_def map_set_def mock_deployment_def)

lemma update_sets_status:
  assumes "effective cfg flt = None"
  shows "map status (rows_for k
           (deployments (snd (updateDeploymentStatus cfg k st dat t flt d)))) =
         map (\<lambda>r. st) (rows_for k (deployments d))"
  using assms
  by (cases "MOCK_DB cfg")
     (simp_all add: op_deployments rows_for_update_where mock_update_def sql_update_def comp_def)

lemma create_params_key [simp]:
  "deployTweetId (create_params data wallet) = tweet_id (mention data)"
  by (simp add: create_params_def)

text \<open>
  The worker passes no signer: outside the mock chain the deployer fails before it makes
  any external call.
\<close>

lemma deploy_without_signer:
  "deploy cfg chain params None =
     (if MOCK_CHAIN cfg then (mock_result, [])
      else (deploy_failed (''Cannot read properties of undefined (reading '' @ [CHR 0x27] @
                           ''address'' @ [CHR 0x27] @ '')''), []))"
  by (simp add: deploy_def)

lemma deploy_result_fields [simp]:
  "success (deploy_failed m) = False"
  "txHash (deploy_failed m) = None"
  "tokenAddress (deploy_failed m) = None"
  "poolId (deploy_failed m) = None"
  "success mock_result = True"
  "tokenAddress mock_result \<noteq> None"
  by (simp_all add: deploy_failed_def mock_result_def)

lemmas io_exec = await_unfold query_unfold emit_def returns_def throws_def

lemma wallet_missing_steps_calls [simp]:
  "(Db_recordDeployAttempt r \<in> set (trace (snd (wallet_missing_steps cfg env data w)))) =
     (Db_recordDeployAttempt r \<in> set (trace w))"
  "(Call_deploy \<in> set (trace (snd (wallet_missing_steps cfg env data w)))) =
     (Call_deploy \<in> set (trace w))"
  "(Chain_createToken \<in> set (trace (snd (wallet_missing_steps cfg env data w)))) =
     (Chain_createToken \<in> set (trace w))"
  by (auto simp: wallet_missing_steps_def io_exec split: sum.splits)

lemma wallet_missing_steps_rate_limits [simp]:
  "rate_limits (db (snd (wallet_missing_steps cfg env data w))) = rate_limits (db w)"
  by (simp add: wallet_missing_steps_def io_exec split: sum.split)

lemma wallet_missing_steps_returns:
  "fst (wallet_missing_steps cfg env data w) = Inr r \<Longrightarrow> r = Status_wallet_missing"
  by (auto simp: wallet_missing_steps_def io_exec split: sum.splits)

lemma wallet_missing_steps_accepted:
  assumes "MOCK_DB cfg \<or> accepted (faults w)"
      and "\<not> has_row (tweet_id (mention data)) (deployments (db w))"
  shows "fst (wallet_missing_steps cfg env data w) = Inr Status_wallet_missing"
    and "map status (rows_for (tweet_id (mention data))
           (deployments (db (snd (wallet_missing_steps cfg env data w))))) = [wallet_missing]"
proof -
  have e: "effective cfg (next_fault (faults w)) = None"
          "effective cfg (next_fault (tl (faults w))) = None"
    using assms(1) by (auto simp: effective_def)
  show "fst (wallet_missing_steps cfg env data w) = Inr Status_wallet_missing"
    using e assms(2)
    by (simp add: wallet_missing_steps_def io_exec create_fresh write_fst)
  show "map status (rows_for (tweet_id (mention data))
           (deployments (db (snd (wallet_missing_steps cfg env data w))))) = [wallet_missing]"
    using e assms(2)
    by (simp add: wallet_missing_steps_def io_exec create_fresh write_fst update_sets_status
          rows_for_absent)
qed

lemma deploy_steps_returns:
  "fst (deploy_steps cfg env data wallet w) = Inr r \<Longrightarrow>
     r \<noteq> Status_wallet_missing \<and> r \<noteq> Status_rate_limited \<and> r \<noteq> Skipped_duplicate"
  by (cases "MOCK_CHAIN cfg")
     (auto simp: deploy_steps_def postSuccess_def io_exec deploy_without_signer
           split: sum.splits option.splits if_splits)

lemma block_returns [simp]:
  "fst (deploy_steps cfg env data wallet w) \<noteq> Inr Status_rate_limited"
  "fst (deploy_steps cfg env data wallet w) \<noteq> Inr Status_wallet_missing"
  "fst (deploy_steps cfg env data wallet w) \<noteq> Inr Skipped_duplicate"
  "fst (wallet_missing_steps cfg env data w) \<noteq> Inr Status_rate_limited"
  "fst (wallet_missing_steps cfg env data w) \<noteq> Inr Skipped_duplicate"
  using deploy_steps_returns[of cfg env data wallet w]
        wallet_missing_steps_returns[of cfg env data w]
  by auto

lemma deploy_steps_record:
  "Db_recordDeployAttempt r \<in> set (trace (snd (deploy_steps cfg env data wallet w))) \<Longrightarrow>
     Db_recordDeployAttempt r \<in> set (trace w) \<or>
     r = author_id (mention data) \<and>
     (\<exists>later. trace (snd (deploy_steps cfg env data wallet w)) =
        trace w @ [Db_createDeployment (tweet_id (mention data)),
                   Db_updateDeploymentStatus (tweet_id (mention data)) processing,
                   Db_recordDeployAttempt (author_id (mention data))] @ later)"
  by (cases "MOCK_CHAIN cfg")
     (auto simp: deploy_steps_def postSuccess_def io_exec deploy_without_signer
           split: sum.splits option.splits if_splits)

lemmas job_exec =
  run_job_def processDeploymentJob_def try_block_def catch_block_def io_exec
  case_prod_unfold read_fst

lemma accepted_effective [simp]: "accepted fs \<Longrightarrow> effective cfg (next_fault fs) = None"
  by (simp add: effective_def)

lemma duplicate_is_skipped:
  assumes "has_row (tweet_id (mention data)) (deployments d)" and "MOCK_DB cfg \<or> accepted fs"
  shows "fst (run_job cfg env data d fs) = Returned Skipped_duplicate"
    and "db (snd (run_job cfg env data d fs)) = d"
  using assms by (auto simp: job_exec)

subsection \<open>Rows are never removed, and the deployer is called on fresh tweets only\<close>

lemmas whole_job =
  run_job_def processDeploymentJob_def try_block_def catch_block_def wallet_missing_steps_def
  deploy_steps_def postSuccess_def await_def returns_def throws_def emit_def query_def
  store_defs Let_def mock_deployment_def inserted_row_def create_params_def

lemma run_job_keeps_rows:
  assumes "has_row k (deployments d)"
  shows "has_row k (deployments (db (snd (run_job cfg env data d fs))))"
  using assms
  by (cases "MOCK_DB cfg")
     (auto simp: whole_job split: if_splits option.splits sum.splits prod.splits)

lemma run_job_deploy_fresh:
  assumes "Call_deploy \<in> set (trace (snd (run_job cfg env data d fs)))"
  shows "\<not> has_row (tweet_id (mention data)) (deployments d) \<and>
         has_row (tweet_id (mention data)) (deployments (db (snd (run_job cfg env data d fs))))"
  using assms
  by (cases "MOCK_DB cfg")
     (auto simp: whole_job split: if_splits option.splits sum.splits prod.splits)

lemma run_jobs_Cons:
  "run_jobs cfg ((env, data) # rest) d fs =
     ((data, fst (run_job cfg env data d fs), trace (snd (run_job cfg env data d fs)))
        # fst (run_jobs cfg rest (db (snd (run_job cfg env data d fs)))
                 (faults (snd (run_job cfg env data d fs)))),
      snd (run_jobs cfg rest (db (snd (run_job cfg env data d fs)))
             (faults (snd (run_job cfg env data d fs)))))"
  by (simp split: prod.splits)

lemma no_deploy_once_row_exists:
  "has_row k (deployments d) \<Longrightarrow> deploys_for k (fst (run_jobs cfg jobs d fs)) = 0"
proof (induction jobs arbitrary: d fs)
  case Nil
  then show ?case by (simp add: deploys_for_def)
next
  case (Cons j jobs)
  obtain env data where j: "j = (env, data)" by (cases j)
  let ?w = "snd (run_job cfg env data d fs)"
  have kept: "has_row k (deployments (db ?w))"
    using Cons.prems by (rule run_job_keeps_rows)
  have rest: "deploys_for k (fst (run_jobs cfg jobs (db ?w) (faults ?w))) = 0"
    using kept by (rule Cons.IH)
  have "\<not> (tweet_id (mention data) = k \<and> Call_deploy \<in> set (trace ?w))"
    using run_job_deploy_fresh[of cfg env data d fs] Cons.prems by auto
  with rest show ?case
    by (simp add: j run_jobs_Cons deploys_for_def del: run_jobs.simps)
qed

lemma at_most_one_deploy: "deploys_for k (fst (run_jobs cfg jobs d fs)) \<le> 1"
proof (induction jobs arbitrary: d fs)
  case Nil
  then show ?case by (simp add: deploys_for_def)
next
  case (Cons j jobs)
  obtain env data where j: "j = (env, data)" by (cases j)
  let ?w = "snd (run_job cfg env data d fs)"
  show ?case
  proof (cases "tweet_id (mention data) = k \<and> Call_deploy \<in> set (trace ?w)")
    case True
    then have "has_row k (deployments (db ?w))"
      using run_job_deploy_fresh[of cfg env data d fs] by auto
    then have "deploys_for k (fst (run_jobs cfg jobs (db ?w) (faults ?w))) = 0"
      by (rule no_deploy_once_row_exists)
    with True show ?thesis
      by (simp add: j run_jobs_Cons deploys_for_def del: run_jobs.simps)
  next
    case False
    have "deploys_for k (fst (run_jobs cfg jobs (db ?w) (faults ?w))) \<le> 1"
      by (rule Cons.IH)
    with False show ?thesis
      by (auto simp: j run_jobs_Cons deploys_for_def simp del: run_jobs.simps)
  qed
qed

subsection \<open>Idempotency\<close>

lemma rows_for_replace_all:
  "deploy_tweet_id dep = k \<Longrightarrow>
     rows_for k (map (\<lambda>r. if deploy_tweet_id r = k then dep else r) rows) =
       map (\<lambda>r. dep) (rows_for k rows)"
  by (induction rows) (auto simp: rows_for_def)

lemma rows_for_map_set_existing:
  assumes "distinct (map deploy_tweet_id rows)" and "has_row (deploy_tweet_id dep) rows"
  shows "rows_for (deploy_tweet_id dep) (map_set dep rows) = [dep]"
proof -
  have "length (rows_for (deploy_tweet_id dep) rows) = 1"
    using assms by (rule rows_for_length_one)
  then obtain r where "rows_for (deploy_tweet_id dep) rows = [r]"
    by (cases "rows_for (deploy_tweet_id dep) rows") auto
  with assms(2) show ?thesis
    by (simp add: map_set_def rows_for_replace_all)
qed

text \<open>
  C1 fails on the code with the in-memory store.  There \<^verbatim>\<open>createDeployment\<close> is
  \<^verbatim>\<open>Map.set\<close>: when the table already holds the row of the tweet id, the call
  signals no duplicate.  It returns a fresh \<^verbatim>\<open>pending\<close> object, and this object
  has replaced the stored row, whatever the status of that row was.  (The table still
  holds one row for the id.)
\<close>

theorem mock_create_replaces_row_without_signal:
  assumes "MOCK_DB cfg"
      and "distinct (map deploy_tweet_id (deployments d))"
      and "has_row (deployTweetId p) (deployments d)"
  shows "fst (createDeployment cfg p t flt d) = Inr (mock_deployment p (length (deployments d)) t)
       \<and> fst (createDeployment cfg p t flt d) \<noteq> Inl DuplicateKeyError
       \<and> rows_for (deployTweetId p) (deployments (snd (createDeployment cfg p t flt d))) =
           [mock_deployment p (length (deployments d)) t]
       \<and> map status (rows_for (deployTweetId p)
            (deployments (snd (createDeployment cfg p t flt d)))) = [pending]"
proof -
  let ?dep = "mock_deployment p (length (deployments d)) t"
  have k: "deploy_tweet_id ?dep = deployTweetId p" by (simp add: mock_deployment_def)
  have s: "status ?dep = pending" by (simp add: mock_deployment_def)
  have "rows_for (deploy_tweet_id ?dep) (map_set ?dep (deployments d)) = [?dep]"
    using assms(2,3) by (intro rows_for_map_set_existing) (simp_all add: k)
  then have r: "rows_for (deployTweetId p) (map_set ?dep (deployments d)) = [?dep]"
    by (simp only: k)
  show ?thesis
    using assms(1) r s by (simp add: createDeployment_def Let_def)
qed

text \<open>
  Two calls for tweet 1001 on the empty in-memory store: the second returns a new
  \<^verbatim>\<open>pending\<close> row, which is then the one stored.
\<close>

theorem mock_create_replaces_row_without_signal_witness:
  "fst (createDeployment mock_store ex_params 2 None
          (snd (createDeployment mock_store ex_params 1 None ex_empty_db))) =
     Inr (mock_deployment ex_params 1 2)
   \<and> fst (createDeployment mock_store ex_params 2 None
            (snd (createDeployment mock_store ex_params 1 None ex_empty_db))) \<noteq>
       Inl DuplicateKeyError
   \<and> rows_for ''1001''
        (deployments (snd (createDeployment mock_store ex_params 2 None
                      (snd (createDeployment mock_store ex_params 1 None ex_empty_db))))) =
       [mock_deployment ex_params 1 2]"
proof -
  let ?d1 = "snd (createDeployment mock_store ex_params 1 None ex_empty_db)"
  have m: "MOCK_DB mock_store" by (simp add: mock_store_def)
  have rows: "deployments ?d1 = [mock_deployment ex_params 0 1]"
    by (simp add: createDeployment_def mock_store_def ex_empty_db_def Let_def map_set_def
          has_row_def)
  have k: "deployTweetId ex_params = ''1001''"
    by (simp add: ex_params_def create_params_def ex_job_def)
  have dk: "deploy_tweet_id (mock_deployment ex_params 0 1) = ''1001''"
    by (simp add: mock_deployment_def k)
  have d: "distinct (map deploy_tweet_id (deployments ?d1))"
    using rows by simp
  have h: "has_row (deployTweetId ex_params) (deployments ?d1)"
    using rows dk k by (simp add: has_row_def)
  note inst = mock_create_replaces_row_without_signal[OF m d h, of 2 None]
  from inst rows k show ?thesis by simp
qed

text \<open>A \<^verbatim>\<open>deployed\<close> row of the in-memory store is \<^verbatim>\<open>pending\<close> after the call.\<close>

lemma ex_mock_create_resets_deployed:
  "map status (rows_for ''1001'' (deployments ex_deployed_db)) = [deployed]
   \<and> map status (rows_for ''1001''
        (deployments (snd (createDeployment mock_store ex_params 4000 None ex_deployed_db)))) =
       [pending]"
  by (simp add: createDeployment_def mock_store_def ex_deployed_db_def ex_deployed_row_def
        ex_linked_db_def ex_params_def create_params_def ex_job_def Let_def map_set_def
        has_row_def rows_for_def mock_deployment_def)

text \<open>
  What holds of both stores.  On a table that satisfies its uniqueness constraint, two
  executed calls of \<^verbatim>\<open>createDeployment\<close> with the same tweet id leave exactly one
  row for that id.  With the Postgres store the second call throws the unique-violation
  error and leaves the table as it was.  The pipeline itself skips a job whose tweet
  already has a row (when its existence query is executed), and in every run of jobs,
  whatever queries are rejected, at most one job per tweet id calls the deployer.
\<close>

theorem create_twice_stores_one_row_and_deploys_once:
  assumes "distinct (map deploy_tweet_id (deployments d))"
      and "deployTweetId p2 = deployTweetId p1"
  shows "length (rows_for (deployTweetId p1)
           (deployments (snd (createDeployment cfg p2 t2 None
                                (snd (createDeployment cfg p1 t1 None d)))))) = 1
       \<and> (\<not> MOCK_DB cfg \<longrightarrow>
            fst (createDeployment cfg p2 t2 None (snd (createDeployment cfg p1 t1 None d))) =
              Inl DuplicateKeyError
          \<and> deployments (snd (createDeployment cfg p2 t2 None
                                (snd (createDeployment cfg p1 t1 None d)))) =
              deployments (snd (createDeployment cfg p1 t1 None d)))
       \<and> (MOCK_DB cfg \<longrightarrow>
            fst (createDeployment cfg p2 t2 None (snd (createDeployment cfg p1 t1 None d))) =
              Inr (mock_deployment p2
                     (length (deployments (snd (createDeployment cfg p1 t1 None d)))) t2))
       \<and> (has_row (tweet_id (mention data)) (deployments d) \<and> (MOCK_DB cfg \<or> accepted fs) \<longrightarrow>
            fst (run_job cfg env data d fs) = Returned Skipped_duplicate
          \<and> db (snd (run_job cfg env data d fs)) = d)
       \<and> deploys_for k (fst (run_jobs cfg jobs d fs')) \<le> 1"
proof -
  note create_twice_rows[OF assms, of cfg t2 t1]
  moreover note create_twice_signal[OF assms(2), of cfg t2 t1 d]
  moreover note create_twice_mock[of cfg p2 t2 p1 t1 d]
  moreover have "has_row (tweet_id (mention data)) (deployments d) \<and> (MOCK_DB cfg \<or> accepted fs) \<longrightarrow>
            fst (run_job cfg env data d fs) = Returned Skipped_duplicate
          \<and> db (snd (run_job cfg env data d fs)) = d"
    using duplicate_is_skipped[of data d cfg fs env] by blast
  moreover note at_most_one_deploy[of k cfg jobs d fs']
  ultimately show ?thesis by blast
qed

theorem create_twice_stores_one_row_and_deploys_once_witness:
  "length (rows_for ''1001''
     (deployments (snd (createDeployment production ex_params 2 None
                          (snd (createDeployment production ex_params 1 None ex_linked_db)))))) = 1
   \<and> fst (createDeployment production ex_params 2 None
            (snd (createDeployment production ex_params 1 None ex_linked_db))) =
       Inl DuplicateKeyError
   \<and> deploys_for ''1001''
       (fst (run_jobs production [(ex_env, ex_job), (ex_env, ex_job)] ex_linked_db [])) \<le> 1"
proof -
  have d: "distinct (map deploy_tweet_id (deployments ex_linked_db))"
    by (simp add: ex_linked_db_def)
  have k: "deployTweetId ex_params = ''1001''"
    by (simp add: ex_params_def create_params_def ex_job_def)
  have m: "\<not> MOCK_DB production" by (simp add: production_def)
  note inst = create_twice_stores_one_row_and_deploys_once
            [where cfg = production and d = ex_linked_db and ?p1.0 = ex_params
               and ?t1.0 = 1 and ?t2.0 = 2 and k = "''1001''"
               and jobs = "[(ex_env, ex_job), (ex_env, ex_job)]" and fs' = "[]"
               and data = ex_job and env = ex_env and fs = "[]", OF d refl]
  from inst[unfolded k] m show ?thesis by blast
qed

subsection \<open>Status life cycle\<close>

lemmas ex_defs =
  production_def mock_store_def all_mock_def ex_empty_db_def ex_job_def ex_params_def
  ex_chain_def ex_env_def ex_linked_db_def ex_limited_db_def ex_deployed_row_def
  ex_deployed_db_def

lemmas eval_defs =
  whole_job next_fault_def deploy_def mock_result_def deploy_failed_def or_null_def truthy_def
  wallet_of_def has_row_def map_set_def update_where_def sql_update_def mock_update_def
  supplied_def no_data_def RATE_LIMIT_COOLDOWN_MS_def rows_for_def

text \<open>
  C2 fails on the code.  Take the Postgres store and a job whose first query, the
  existence check of step 1, is rejected, while the query after it is executed.  The
  \<^verbatim>\<open>catch\<close> block then marks the rows of the job's tweet \<^verbatim>\<open>failed\<close>, whatever
  their status was, and the job throws what the first query threw.  So when the job of a
  tweet whose deployment is \<^verbatim>\<open>deployed\<close> (or \<^verbatim>\<open>wallet_missing\<close>) is delivered
  again and meets such a rejection, the row goes back to \<^verbatim>\<open>failed\<close>.
\<close>

theorem redelivered_job_turns_deployed_into_failed:
  assumes "\<not> MOCK_DB cfg" and "next_fault rest = None"
  shows "fst (run_job cfg env data d (Some m # rest)) = Threw (StorageError m)
       \<and> trace (snd (run_job cfg env data d (Some m # rest))) =
           [Db_deploymentExists (tweet_id (mention data)),
            Db_updateDeploymentStatus (tweet_id (mention data)) failed]
       \<and> map status (rows_for (tweet_id (mention data))
            (deployments (db (snd (run_job cfg env data d (Some m # rest)))))) =
           map (\<lambda>r. failed) (rows_for (tweet_id (mention data)) (deployments d))"
  using assms
  by (simp add: job_exec next_fault_def effective_def update_sets_status)

text \<open>
  The deployment of tweet 1001 is \<^verbatim>\<open>deployed\<close>; its job is delivered again and the
  existence query times out: the row is \<^verbatim>\<open>failed\<close> afterwards.
\<close>

theorem redelivered_job_turns_deployed_into_failed_witness:
  "map status (rows_for ''1001'' (deployments ex_deployed_db)) = [deployed]
   \<and> fst (run_job production ex_env ex_job ex_deployed_db
            [Some ''Connection terminated due to connection timeout'']) =
       Threw (StorageError ''Connection terminated due to connection timeout'')
   \<and> trace (snd (run_job production ex_env ex_job ex_deployed_db
                   [Some ''Connection terminated due to connection timeout''])) =
       [Db_deploymentExists ''1001'', Db_updateDeploymentStatus ''1001'' failed]
   \<and> map status (rows_for ''1001''
        (deployments (db (snd (run_job production ex_env ex_job ex_deployed_db
                                 [Some ''Connection terminated due to connection timeout''])))))
      = [failed]"
proof -
  have p: "\<not> MOCK_DB production" by (simp add: production_def)
  have n: "next_fault [] = None" by (simp add: next_fault_def)
  have k: "tweet_id (mention ex_job) = ''1001''" by (simp add: ex_job_def)
  have r: "map status (rows_for ''1001'' (deployments ex_deployed_db)) = [deployed]"
    by (simp add: rows_for_def ex_deployed_db_def ex_deployed_row_def ex_linked_db_def)
  have f: "map (\<lambda>r. failed) (rows_for ''1001'' (deployments ex_deployed_db)) = [failed]"
    by (simp add: rows_for_def ex_deployed_db_def ex_deployed_row_def ex_linked_db_def)
  note inst = redelivered_job_turns_deployed_into_failed
                [OF p n, of ex_env ex_job ex_deployed_db
                   "''Connection terminated due to connection timeout''", unfolded k]
  from inst r f show ?thesis by simp
qed

text \<open>
  What does hold.  A job writes to the rows of its own tweet only, whatever queries are
  rejected; and when the store executes every query, a job whose tweet has a row is
  skipped.  So in a run of jobs whose queries are all executed, a row that exists is
  never changed again: its status, once written by the job that created the row, stays.
\<close>

lemma rows_for_replace_other:
  "k \<noteq> deploy_tweet_id dep \<Longrightarrow>
     rows_for k (map (\<lambda>r. if deploy_tweet_id r = deploy_tweet_id dep then dep else r) rows) =
       rows_for k rows"
  by (induction rows) (auto simp: rows_for_def)

lemma rows_for_map_set_other:
  "k \<noteq> deploy_tweet_id dep \<Longrightarrow> rows_for k (map_set dep rows) = rows_for k rows"
  by (simp add: map_set_def rows_for_replace_other)

lemma rows_for_create_other:
  "k \<noteq> deployTweetId p \<Longrightarrow>
     rows_for k (deployments (snd (createDeployment cfg p t flt d))) = rows_for k (deployments d)"
  by (auto simp: op_deployments rows_for_map_set_other mock_deployment_def inserted_row_def
           split: option.split)

lemma rows_for_update_other:
  "k \<noteq> k' \<Longrightarrow>
     rows_for k (deployments (snd (updateDeploymentStatus cfg k' st dat t flt d))) =
       rows_for k (deployments d)"
  by (auto simp: op_deployments rows_for_update_where mock_update_def sql_update_def
           split: option.split)

lemma wallet_missing_steps_other:
  "k \<noteq> tweet_id (mention data) \<Longrightarrow>
     rows_for k (deployments (db (snd (wallet_missing_steps cfg env data w)))) =
       rows_for k (deployments (db w))"
  by (simp add: wallet_missing_steps_def io_exec rows_for_create_other rows_for_update_other
           split: sum.split)

lemma deploy_steps_other:
  "k \<noteq> tweet_id (mention data) \<Longrightarrow>
     rows_for k (deployments (db (snd (deploy_steps cfg env data wallet w)))) =
       rows_for k (deployments (db w))"
  by (cases "MOCK_CHAIN cfg")
     (simp_all add: deploy_steps_def postSuccess_def io_exec deploy_without_signer
        rows_for_create_other rows_for_update_other split: sum.split option.split)

lemma run_job_other_rows:
  "k \<noteq> tweet_id (mention data) \<Longrightarrow>
     rows_for k (deployments (db (snd (run_job cfg env data d fs)))) = rows_for k (deployments d)"
  by (simp add: job_exec wallet_missing_steps_other deploy_steps_other rows_for_update_other
           split: sum.split option.split)

lemma existing_rows_are_kept:
  assumes "MOCK_DB cfg \<or> accepted fs" and "has_row k (deployments d)"
  shows "rows_for k (deployments (db (snd (run_job cfg env data d fs)))) =
           rows_for k (deployments d)"
proof (cases "k = tweet_id (mention data)")
  case True
  with assms show ?thesis by (simp add: duplicate_is_skipped)
next
  case False
  then show ?thesis by (rule run_job_other_rows)
qed


lemma wallet_missing_steps_faults:
  "accepted (faults w) \<Longrightarrow> accepted (faults (snd (wallet_missing_steps cfg env data w)))"
  by (simp add: wallet_missing_steps_def io_exec split: sum.split)

lemma deploy_steps_faults:
  "accepted (faults w) \<Longrightarrow> accepted (faults (snd (deploy_steps cfg env data wallet w)))"
  by (cases "MOCK_CHAIN cfg")
     (simp_all add: deploy_steps_def postSuccess_def io_exec deploy_without_signer
        split: sum.split option.split)

lemma run_job_faults:
  "accepted fs \<Longrightarrow> accepted (faults (snd (run_job cfg env data d fs)))"
  by (simp add: job_exec wallet_missing_steps_faults deploy_steps_faults
           split: sum.split option.split)

lemma existing_rows_are_kept_by_jobs:
  "MOCK_DB cfg \<or> accepted fs \<Longrightarrow> has_row k (deployments d) \<Longrightarrow>
     rows_for k (deployments (snd (run_jobs cfg jobs d fs))) = rows_for k (deployments d)"
proof (induction jobs arbitrary: d fs)
  case Nil
  then show ?case by simp
next
  case (Cons j jobs)
  obtain env data where j: "j = (env, data)" by (cases j)
  let ?w = "snd (run_job cfg env data d fs)"
  have a: "MOCK_DB cfg \<or> accepted (faults ?w)"
    using Cons.prems(1) run_job_faults[of fs cfg env data d] by blast
  have kept: "has_row k (deployments (db ?w))"
    using Cons.prems(2) by (rule run_job_keeps_rows)
  have "rows_for k (deployments (snd (run_jobs cfg jobs (db ?w) (faults ?w)))) =
          rows_for k (deployments (db ?w))"
    using a kept by (rule Cons.IH)
  also have "\<dots> = rows_for k (deployments d)"
    using Cons.prems by (rule existing_rows_are_kept)
  finally show ?case
    by (simp add: j run_jobs_Cons del: run_jobs.simps)
qed

subsection \<open>The wallet-missing path\<close>

text \<open>
  C3.  Take a job whose fee recipient has no linked wallet (\<^verbatim>\<open>resolve\<close> gives
  \<^verbatim>\<open>null\<close> on the store the job starts from).  Then, whatever else happens, the run
  never calls the deployer, so no transaction is submitted.  And when the job reaches
  step 2 (its tweet has no row yet) and the store executes its queries, the job returns
  \<^verbatim>\<open>wallet_missing\<close> and leaves exactly one row for its tweet, in status
  \<^verbatim>\<open>wallet_missing\<close>.
\<close>

theorem wallet_missing_is_recorded_and_never_deploys:
  assumes "fst (resolve cfg (p_author_id (parentTweet data)) None d) = Inr None"
  shows "Call_deploy \<notin> set (trace (snd (run_job cfg env data d fs)))
       \<and> Chain_createToken \<notin> set (trace (snd (run_job cfg env data d fs)))
       \<and> ((MOCK_DB cfg \<or> accepted fs) \<and> \<not> has_row (tweet_id (mention data)) (deployments d) \<longrightarrow>
            fst (run_job cfg env data d fs) = Returned Status_wallet_missing
          \<and> map status (rows_for (tweet_id (mention data))
                (deployments (db (snd (run_job cfg env data d fs))))) = [wallet_missing])"
proof -
  have missing: "wallet_of d (p_author_id (parentTweet data)) = None"
    using assms by (simp add: read_fst)
  have "Call_deploy \<notin> set (trace (snd (run_job cfg env data d fs)))
      \<and> Chain_createToken \<notin> set (trace (snd (run_job cfg env data d fs)))"
    using missing
    by (auto simp: job_exec or_null_def truthy_def split: sum.splits option.splits if_splits)
  moreover have "(MOCK_DB cfg \<or> accepted fs) \<and> \<not> has_row (tweet_id (mention data)) (deployments d) \<longrightarrow>
            fst (run_job cfg env data d fs) = Returned Status_wallet_missing
          \<and> map status (rows_for (tweet_id (mention data))
                (deployments (db (snd (run_job cfg env data d fs))))) = [wallet_missing]"
    using missing
    by (auto simp: job_exec or_null_def truthy_def wallet_missing_steps_accepted)
  ultimately show ?thesis by blast
qed

theorem wallet_missing_is_recorded_and_never_deploys_witness:
  "fst (run_job production ex_env ex_job ex_empty_db []) = Returned Status_wallet_missing
   \<and> map status (rows_for ''1001''
        (deployments (db (snd (run_job production ex_env ex_job ex_empty_db []))))) =
       [wallet_missing]
   \<and> Call_deploy \<notin> set (trace (snd (run_job production ex_env ex_job ex_empty_db [])))"
proof -
  have h: "fst (resolve production (p_author_id (parentTweet ex_job)) None ex_empty_db) = Inr None"
    by (simp add: read_fst wallet_of_def or_null_def truthy_def ex_empty_db_def)
  have fresh: "\<not> has_row (tweet_id (mention ex_job)) (deployments ex_empty_db)"
    by (simp add: has_row_def ex_empty_db_def)
  have k: "tweet_id (mention ex_job) = ''1001''" by (simp add: ex_job_def)
  show ?thesis
    using wallet_missing_is_recorded_and_never_deploys[OF h, of ex_env "[]"] fresh k
    by simp
qed

subsection \<open>The rate-limited path\<close>

text \<open>
  C6.  When a job reaches the rate-limit check of step 3 (its tweet has no row, the fee
  recipient's wallet resolved, the queries are executed) and the rate limiter blocks the
  requester, the job returns \<^verbatim>\<open>rate_limited\<close>.  And whenever a job returns
  \<^verbatim>\<open>rate_limited\<close>, the store is exactly the one it started from and the only calls
  made are the three reads and the reply: no row is created or updated (so nothing is
  persisted as \<^verbatim>\<open>failed\<close>) and the deployer is not called.
\<close>

theorem rate_limited_changes_nothing:
  "((MOCK_DB cfg \<or> accepted fs)
      \<and> \<not> has_row (tweet_id (mention data)) (deployments d)
      \<and> fst (resolve cfg (p_author_id (parentTweet data)) None d) = Inr (Some wallet)
      \<and> fst (checkRateLimit cfg (author_id (mention data)) RATE_LIMIT_COOLDOWN_MS
               (env_clock env) None d) = Inr False
     \<longrightarrow> fst (run_job cfg env data d fs) = Returned Status_rate_limited)
   \<and> (fst (run_job cfg env data d fs) = Returned Status_rate_limited
     \<longrightarrow> db (snd (run_job cfg env data d fs)) = d
       \<and> trace (snd (run_job cfg env data d fs)) =
           [Db_deploymentExists (tweet_id (mention data)),
            Db_getWalletByTwitterId (p_author_id (parentTweet data)),
            Db_checkRateLimit (author_id (mention data)),
            Reply_postFailure (tweet_id (mention data))
              ''Rate limited. Please wait before deploying again.''])"
proof -
  have "(MOCK_DB cfg \<or> accepted fs)
      \<and> \<not> has_row (tweet_id (mention data)) (deployments d)
      \<and> fst (resolve cfg (p_author_id (parentTweet data)) None d) = Inr (Some wallet)
      \<and> fst (checkRateLimit cfg (author_id (mention data)) RATE_LIMIT_COOLDOWN_MS
               (env_clock env) None d) = Inr False
     \<longrightarrow> fst (run_job cfg env data d fs) = Returned Status_rate_limited"
    by (auto simp: job_exec or_null_def truthy_def wallet_of_def split: option.splits)
  moreover have "fst (run_job cfg env data d fs) = Returned Status_rate_limited
     \<longrightarrow> db (snd (run_job cfg env data d fs)) = d
       \<and> trace (snd (run_job cfg env data d fs)) =
           [Db_deploymentExists (tweet_id (mention data)),
            Db_getWalletByTwitterId (p_author_id (parentTweet data)),
            Db_checkRateLimit (author_id (mention data)),
            Reply_postFailure (tweet_id (mention data))
              ''Rate limited. Please wait before deploying again.'']"
    by (simp add: job_exec split: sum.split option.split)
  ultimately show ?thesis by blast
qed

theorem rate_limited_changes_nothing_witness:
  "fst (run_job production ex_env ex_job ex_limited_db []) = Returned Status_rate_limited
   \<and> db (snd (run_job production ex_env ex_job ex_limited_db [])) = ex_limited_db"
proof -
  have "\<not> has_row (tweet_id (mention ex_job)) (deployments ex_limited_db)"
    by (simp add: has_row_def ex_limited_db_def ex_linked_db_def)
  moreover have "fst (resolve production (p_author_id (parentTweet ex_job)) None ex_limited_db) =
                   Inr (Some ''0x2222222222222222222222222222222222222222'')"
    by (simp add: read_fst wallet_of_def or_null_def truthy_def ex_limited_db_def
          ex_linked_db_def ex_job_def)
  moreover have "fst (checkRateLimit production (author_id (mention ex_job))
                        RATE_LIMIT_COOLDOWN_MS (env_clock ex_env) None ex_limited_db) = Inr False"
    by (simp add: read_fst ex_limited_db_def ex_linked_db_def ex_job_def ex_env_def
          RATE_LIMIT_COOLDOWN_MS_def)
  ultimately show ?thesis
    using rate_limited_changes_nothing
            [of production "[]" ex_job ex_limited_db
                "''0x2222222222222222222222222222222222222222''" ex_env]
    by simp
qed

subsection \<open>Recording the attempt\<close>

text \<open>
  C10.  If a run of a job calls \<^verbatim>\<open>recordDeployAttempt\<close>, then it does so for the
  requester, the tweet had no row, the fee recipient's wallet resolved, the rate-limit
  check passed, and the first six calls of the run are the three reads,
  \<^verbatim>\<open>createDeployment\<close>, \<^verbatim>\<open>updateDeploymentStatus(processing)\<close> and then
  \<^verbatim>\<open>recordDeployAttempt\<close>.  A job that returns \<^verbatim>\<open>wallet_missing\<close> or
  \<^verbatim>\<open>rate_limited\<close> has not called it, and the rate-limit table is as it was.
\<close>

theorem record_attempt_only_on_deploy_path:
  "(Db_recordDeployAttempt r \<in> set (trace (snd (run_job cfg env data d fs)))
     \<longrightarrow> r = author_id (mention data)
       \<and> \<not> has_row (tweet_id (mention data)) (deployments d)
       \<and> fst (resolve cfg (p_author_id (parentTweet data)) None d) \<noteq> Inr None
       \<and> fst (checkRateLimit cfg (author_id (mention data)) RATE_LIMIT_COOLDOWN_MS
                (env_clock env) None d) = Inr True
       \<and> take 6 (trace (snd (run_job cfg env data d fs))) =
           [Db_deploymentExists (tweet_id (mention data)),
            Db_getWalletByTwitterId (p_author_id (parentTweet data)),
            Db_checkRateLimit (author_id (mention data)),
            Db_createDeployment (tweet_id (mention data)),
            Db_updateDeploymentStatus (tweet_id (mention data)) processing,
            Db_recordDeployAttempt (author_id (mention data))])
   \<and> (fst (run_job cfg env data d fs) = Returned Status_wallet_missing
        \<or> fst (run_job cfg env data d fs) = Returned Status_rate_limited
     \<longrightarrow> Db_recordDeployAttempt r \<notin> set (trace (snd (run_job cfg env data d fs)))
       \<and> rate_limits (db (snd (run_job cfg env data d fs))) = rate_limits d)"
proof -
  have "Db_recordDeployAttempt r \<in> set (trace (snd (run_job cfg env data d fs)))
     \<longrightarrow> r = author_id (mention data)
       \<and> \<not> has_row (tweet_id (mention data)) (deployments d)
       \<and> fst (resolve cfg (p_author_id (parentTweet data)) None d) \<noteq> Inr None
       \<and> fst (checkRateLimit cfg (author_id (mention data)) RATE_LIMIT_COOLDOWN_MS
                (env_clock env) None d) = Inr True
       \<and> take 6 (trace (snd (run_job cfg env data d fs))) =
           [Db_deploymentExists (tweet_id (mention data)),
            Db_getWalletByTwitterId (p_author_id (parentTweet data)),
            Db_checkRateLimit (author_id (mention data)),
            Db_createDeployment (tweet_id (mention data)),
            Db_updateDeploymentStatus (tweet_id (mention data)) processing,
            Db_recordDeployAttempt (author_id (mention data))]"
    by (auto simp: job_exec or_null_def truthy_def
             split: sum.splits option.splits if_splits dest!: deploy_steps_record)
  moreover have "fst (run_job cfg env data d fs) = Returned Status_wallet_missing
        \<or> fst (run_job cfg env data d fs) = Returned Status_rate_limited
     \<longrightarrow> Db_recordDeployAttempt r \<notin> set (trace (snd (run_job cfg env data d fs)))
       \<and> rate_limits (db (snd (run_job cfg env data d fs))) = rate_limits d"
    by (auto simp: job_exec split: sum.splits option.splits if_splits)
  ultimately show ?thesis by blast
qed

lemma ex_mock_run:
  "trace (snd (run_job all_mock ex_env ex_job ex_linked_db [])) =
     [Db_deploymentExists ''1001'', Db_getWalletByTwitterId ''8'', Db_checkRateLimit ''7'',
      Db_createDeployment ''1001'', Db_updateDeploymentStatus ''1001'' processing,
      Db_recordDeployAttempt ''7'', Call_deploy,
      Db_updateDeploymentStatus ''1001'' deployed, Reply_postSuccess ''1001'']"
  by (simp add: eval_defs ex_defs)

theorem record_attempt_only_on_deploy_path_witness:
  "Db_recordDeployAttempt ''7'' \<in> set (trace (snd (run_job all_mock ex_env ex_job ex_linked_db [])))
   \<and> \<not> has_row (tweet_id (mention ex_job)) (deployments ex_linked_db)
   \<and> fst (checkRateLimit all_mock (author_id (mention ex_job)) RATE_LIMIT_COOLDOWN_MS
            (env_clock ex_env) None ex_linked_db) = Inr True"
  using record_attempt_only_on_deploy_path
          [of "''7''" all_mock ex_env ex_job ex_linked_db "[]"]
  by (simp add: ex_mock_run)

subsection \<open>Failure of the on-chain steps\<close>

lemma rows_for_update:
  assumes "effective cfg flt = None"
  shows "rows_for k (deployments (snd (updateDeploymentStatus cfg k st dat t flt d))) =
           map (if MOCK_DB cfg then mock_update st dat else sql_update st dat t)
             (rows_for k (deployments d))"
  using assms
  by (simp add: op_deployments rows_for_update_where mock_update_def sql_update_def)





text \<open>
  The update of the worker's failure branch writes a hash that is passed to it.
\<close>

lemma failed_update_records_hash:
  assumes "MOCK_DB cfg \<or> flt = None" and "h \<noteq> []"
  shows "map tx_hash (rows_for k (deployments (snd (updateDeploymentStatus cfg k failed
            \<lparr>data_tokenAddress = None, data_poolId = None, data_txHash = Some h,
             data_errorMessage = e\<rparr> t flt d)))) =
         map (\<lambda>r. Some h) (rows_for k (deployments d))"
  using assms
  by (auto simp: rows_for_update effective_def mock_update_def sql_update_def supplied_def
        truthy_def comp_def)



text \<open>
  The deployer on its own, called with a signer (no job does so).  When the launch API
  answers, \<^verbatim>\<open>createToken\<close> submits the transaction with hash \<open>h\<close> and
  \<^verbatim>\<open>tx.wait()\<close> rejects with message \<open>m\<close>, the result carries the message and no
  hash.  No failed result of the deployer carries one.
\<close>

lemma deploy_with_signer_drops_hash:
  assumes "\<not> MOCK_CHAIN cfg"
      and "login_answer chain = Completes accessToken"
      and "payload_answer chain = Completes payload"
      and "createToken_answer chain = Completes h"
      and "wait_answer chain = Rejects m"
  shows "deploy cfg chain params (Some signer) =
           (\<lparr>success = False, tokenAddress = None, poolId = None, txHash = None,
             error = Some (if m = [] then ''Unknown error'' else m)\<rparr>,
            [Chain_login, Chain_getTokenCreatePayload, Chain_createToken, Chain_wait])"
  using assms by (simp add: deploy_def deploy_failed_def)

lemma failed_result_has_no_hash:
  "\<not> success (fst (deploy cfg chain params signer)) \<Longrightarrow>
     txHash (fst (deploy cfg chain params signer)) = None"
  by (auto simp: deploy_def deploy_failed_def mock_result_def
           split: if_splits option.splits attempt.splits prod.splits)

subsection \<open>The command parser\<close>

lemma toLowerCase_char_idem [simp]:
  "toLowerCase_char (toLowerCase_char c) = toLowerCase_char c"
  by (auto simp: toLowerCase_char_def Let_def)

lemma toLowerCase_idem [simp]: "toLowerCase (toLowerCase s) = toLowerCase s"
  by (simp add: toLowerCase_def)

lemma lower_deploy: "toLowerCase ''deploy'' = ''deploy''"
  by code_simp

lemma lower_mention: "toLowerCase (''@'' @ botName) = ''@'' @ toLowerCase botName"
proof -
  have "toLowerCase_char CHR ''@'' = CHR ''@''" by code_simp
  then show ?thesis by (simp add: toLowerCase_def)
qed

lemma sublist_trans: "sublist a b \<Longrightarrow> sublist b c \<Longrightarrow> sublist a c"
proof -
  assume "sublist a b" "sublist b c"
  then obtain p1 s1 p2 s2 where "b = p1 @ a @ s1" "c = p2 @ b @ s2"
    by (auto simp: sublist_def)
  then have "c = (p2 @ p1) @ a @ (s1 @ s2)" by simp
  then show ?thesis unfolding sublist_def by blast
qed

lemma sublist_trim: "sublist (trim s) s"
proof -
  have "sublist (dropWhile is_space (rev (dropWhile is_space s))) (rev (dropWhile is_space s))"
    by (rule sublist_dropWhile)
  then have "sublist (trim s) (dropWhile is_space s)"
    by (simp add: trim_def sublist_rev_left)
  moreover have "sublist (dropWhile is_space s) s" by (rule sublist_dropWhile)
  ultimately show ?thesis by (rule sublist_trans)
qed

text \<open>
  The specification's notion is the test the code makes: lower-case both sides and look
  for the piece.
\<close>

lemma contains_ci_iff:
  "contains_ci txt part = str_includes (toLowerCase txt) (toLowerCase part)"
proof
  assume "contains_ci txt part"
  then obtain u where u: "sublist u txt" "toLowerCase u = toLowerCase part"
    by (auto simp: contains_ci_def)
  from u(1) have "sublist (map toLowerCase_char u) (map toLowerCase_char txt)"
    by (rule map_mono_sublist)
  with u(2) show "str_includes (toLowerCase txt) (toLowerCase part)"
    by (simp add: str_includes_def toLowerCase_def)
next
  assume "str_includes (toLowerCase txt) (toLowerCase part)"
  then have "sublist (toLowerCase part) (map toLowerCase_char txt)"
    by (simp add: str_includes_def toLowerCase_def)
  then obtain u where "sublist u txt" "toLowerCase part = map toLowerCase_char u"
    using sublist_map_rightE by blast
  then show "contains_ci txt part" by (auto simp: contains_ci_def toLowerCase_def)
qed

lemma includes_trimmed:
  assumes "str_includes (toLowerCase (trim txt)) (toLowerCase part)"
  shows "contains_ci txt part"
proof -
  from assms have "contains_ci (trim txt) part" by (simp add: contains_ci_iff)
  then obtain u where "sublist u (trim txt)" "toLowerCase u = toLowerCase part"
    by (auto simp: contains_ci_def)
  moreover have "sublist (trim txt) txt" by (rule sublist_trim)
  ultimately show ?thesis by (auto simp: contains_ci_def intro: sublist_trans)
qed

text \<open>
  C8.  A text that does not contain both the mention \<^verbatim>\<open>@\<close>\<open>botName\<close> and the word
  \<^verbatim>\<open>deploy\<close>, each compared without regard to case, is parsed to \<^verbatim>\<open>null\<close> by the
  parser constructed for \<open>botName\<close>.
\<close>

theorem parse_requires_mention_and_deploy:
  assumes "\<not> (contains_ci txt (''@'' @ botName) \<and> contains_ci txt ''deploy'')"
  shows "parse (new_CommandParser botName) txt = None"
proof (rule ccontr)
  assume "parse (new_CommandParser botName) txt \<noteq> None"
  then have a: "str_includes (toLowerCase (trim txt)) (''@'' @ toLowerCase botName)"
        and b: "str_includes (toLowerCase (trim txt)) ''deploy''"
    by (auto simp: parse_def new_CommandParser_def Let_def lower_mention split: if_splits)
  from a have "str_includes (toLowerCase (trim txt)) (toLowerCase (''@'' @ botName))"
    by (simp only: lower_mention)
  then have "contains_ci txt (''@'' @ botName)" by (rule includes_trimmed)
  moreover from b have "str_includes (toLowerCase (trim txt)) (toLowerCase ''deploy'')"
    by (simp only: lower_deploy)
  then have "contains_ci txt ''deploy''" by (rule includes_trimmed)
  ultimately show False using assms by simp
qed

lemma ex_no_mention_lacks: "\<not> contains_ci ex_no_mention (''@'' @ ''MyBot'')"
  unfolding contains_ci_iff by code_simp

theorem parse_requires_mention_and_deploy_witness:
  "\<not> contains_ci ex_no_mention (''@'' @ ''MyBot'')
   \<and> parse (new_CommandParser ''MyBot'') ex_no_mention = None"
  using parse_requires_mention_and_deploy[of ex_no_mention "''MyBot''"] ex_no_mention_lacks
  by simp

subsection \<open>The wallet service\<close>

lemma hex_value_digit: "n < 16 \<Longrightarrow> hex_value (hex_digit n) = Some n"
  by (auto simp: hex_value_def hex_digit_def Let_def)

lemma hex_digit_not_colon: "n < 16 \<Longrightarrow> hex_digit n \<noteq> CHR '':''"
proof
  assume n: "n < 16" and "hex_digit n = CHR '':''"
  then have "hex_value (hex_digit n) = hex_value CHR '':''" by simp
  moreover have "hex_value CHR '':'' = None" by code_simp
  ultimately show False using hex_value_digit[OF n] by simp
qed

lemma high_nibble: "unat (b :: byte) div 16 < 16"
proof -
  have "unat b < 2 ^ LENGTH(8)" by (rule unsigned_less)
  then show ?thesis by simp
qed

lemma byte_nibbles: "of_nat (16 * (unat b div 16) + unat b mod 16) = (b :: byte)"
  by (simp add: mult.commute)

lemma from_hex_to_hex: "from_hex (to_hex bs) = bs"
  by (induction bs) (simp_all add: hex_value_digit high_nibble byte_nibbles)

lemma colon_free: "CHR '':'' \<notin> set (to_hex bs)"
  by (induction bs) (auto simp: hex_digit_not_colon high_nibble dest: sym)

lemma split_on_free: "c \<notin> set s \<Longrightarrow> split_on c s = [s]"
  by (induction s) auto

lemma split_on_pair:
  "c \<notin> set a \<Longrightarrow> c \<notin> set b \<Longrightarrow> split_on c (a @ c # b) = [a, b]"
  by (induction a) (auto simp: split_on_free)

lemma to_hex_empty: "(to_hex bs = []) = (bs = [])"
  by (cases bs) simp_all

text \<open>
  C9, relative to the library.  Let the service hold a valid key, let \<open>iv\<close> be the 16
  random bytes of a call of \<^verbatim>\<open>encrypt\<close>, and let the library keep its contract on
  the text \<open>s\<close>: the cipher returns a non-empty ciphertext, decryption under the same
  key and vector gives the plain bytes back, and decoding the UTF-8 bytes of \<open>s\<close> gives
  \<open>s\<close> back.  Then \<^verbatim>\<open>encrypt\<close> returns the vector and the ciphertext in
  hexadecimal joined by a colon, and \<^verbatim>\<open>decrypt\<close> of that text returns \<open>s\<close>: the
  framing hands both byte strings over unchanged, whatever the vector.
\<close>

theorem decrypt_inverts_encrypt:
  assumes key: "new_WalletService (Some configured) = Inr this"
      and iv: "length iv = 16"
      and enc: "cbc_encrypt lib (encryptionKey this) iv (utf8_bytes lib s) = Some encrypted"
      and nonempty: "encrypted \<noteq> []"
      and dec: "cbc_decrypt lib (encryptionKey this) iv encrypted = Some (utf8_bytes lib s)"
      and utf8: "utf8_text lib (utf8_bytes lib s) = s"
  shows "length (encryptionKey this) = 32
       \<and> encrypt lib this iv s = Some (to_hex iv @ '':'' @ to_hex encrypted)
       \<and> decrypt lib this (to_hex iv @ '':'' @ to_hex encrypted) = Inr s"
proof -
  have k: "length (encryptionKey this) = 32"
    using key by (auto simp: new_WalletService_def split: if_splits)
  have e: "encrypt lib this iv s = Some (to_hex iv @ '':'' @ to_hex encrypted)"
    using enc by (simp add: encrypt_def)
  have parts: "split_on CHR '':'' (to_hex iv @ CHR '':'' # to_hex encrypted) =
                 [to_hex iv, to_hex encrypted]"
    using split_on_pair[of "CHR '':''" "to_hex iv" "to_hex encrypted"]
    by (simp add: colon_free)
  have "iv \<noteq> []" using iv by auto
  then have "to_hex iv \<noteq> []" "to_hex encrypted \<noteq> []"
    using nonempty by (simp_all add: to_hex_empty)
  then have d: "decrypt lib this (to_hex iv @ '':'' @ to_hex encrypted) = Inr s"
    using dec utf8 by (simp add: decrypt_def parts from_hex_to_hex)
  from k e d show ?thesis by simp
qed

lemma ex_key_ok:
  "new_WalletService (Some ex_hexkey) = Inr \<lparr>encryptionKey = from_hex ex_hexkey\<rparr>"
  by (simp add: new_WalletService_def ex_hexkey_def hex_value_def Let_def)

lemma ex_utf8: "utf8_text ex_lib (utf8_bytes ex_lib s) = s"
  by (simp add: ex_lib_def comp_def unat_of_nat)

lemma ex_lib_facts:
  "length ex_iv = 16"
  "cbc_encrypt ex_lib k ex_iv m = Some (ex_iv @ m)"
  "ex_iv @ m \<noteq> []"
  "cbc_decrypt ex_lib k ex_iv (ex_iv @ m) = Some m"
  by (simp_all add: ex_lib_def ex_iv_def)

theorem decrypt_inverts_encrypt_witness:
  "encrypt ex_lib \<lparr>encryptionKey = from_hex ex_hexkey\<rparr> ex_iv ''0xprivatekey'' =
     Some (to_hex ex_iv @ '':'' @ to_hex (ex_iv @ utf8_bytes ex_lib ''0xprivatekey''))
   \<and> decrypt ex_lib \<lparr>encryptionKey = from_hex ex_hexkey\<rparr>
       (to_hex ex_iv @ '':'' @ to_hex (ex_iv @ utf8_bytes ex_lib ''0xprivatekey'')) =
     Inr ''0xprivatekey''"
  using decrypt_inverts_encrypt [OF ex_key_ok ex_lib_facts(1) ex_lib_facts(2) ex_lib_facts(3)
          ex_lib_facts(4) ex_utf8, of "''0xprivatekey''"]
  by simp

end
